theory Spec2Isabelle
  imports Main "HOL-Library.Sublist"
begin

section \<open>Strings of the source language\<close>

text \<open>
  A TypeScript string is a sequence of UTF-16 code units. A code unit is given by its
  number, a natural number below 65536: the program never computes with code units, it
  only compares them. A string literal of the source is written \<open>lit ''...''\<close>:
  every character of the literals of this program is ASCII, so one character is one
  code unit.
\<close>

type_synonym jsstring = "nat list"

definition lit :: "string \<Rightarrow> jsstring" where
  "lit s = map of_char s"

text \<open>
  \<open>a || b\<close> on strings: the empty string is the only falsy string, so the
  result is \<open>b\<close> exactly when \<open>a\<close> is empty.
\<close>

definition orElse :: "jsstring \<Rightarrow> jsstring \<Rightarrow> jsstring" where
  "orElse a b = (if a = [] then b else a)"

section \<open>Data model (types.ts)\<close>

datatype Tone = FORMAL | FIRM | FRIENDLY | DIRECT

fun toneValue :: "Tone \<Rightarrow> jsstring" where
  "toneValue FORMAL = lit ''Formal''"
| "toneValue FIRM = lit ''Firm & Legalistic''"
| "toneValue FRIENDLY = lit ''Polite & Friendly''"
| "toneValue DIRECT = lit ''Direct & Concise''"

record UserDetails =
  fullName :: jsstring
  email :: jsstring
  address :: jsstring
  phone :: jsstring

record SubscriptionDetails =
  serviceName :: jsstring
  accountNumber :: jsstring
  subscriptionPlan :: jsstring
  cancellationReason :: jsstring
  effectiveDate :: jsstring

record LetterData =
  user :: UserDetails
  subscription :: SubscriptionDetails
  tone :: Tone

section \<open>The template generator (getTemplateLetter)\<close>

text \<open>
  The \<open>if\<close> / \<open>else if\<close> chain that sets \<open>toneAdjustment\<close>; the variable
  starts as the empty string and stays so when no branch matches.
\<close>

definition toneAdjustment :: "Tone \<Rightarrow> jsstring" where
  "toneAdjustment t =
     (if t = FIRM then
        lit ''\<newline>Please be advised that this request is final. I expect a written confirmation of this cancellation and an assurance that no further charges will be applied to my account. If any further unauthorized billing occurs, I will be forced to escalate this matter.''
      else if t = FRIENDLY then
        lit ''\<newline>I have enjoyed using your service, but I have decided to cancel at this time. Thank you for your support and assistance with this request.''
      else if t = DIRECT then
        lit ''\<newline>Please process this request immediately. No further communication is required other than a confirmation of termination.''
      else lit [])"

text \<open>The interpolation of the reason: the line with its own line break, or nothing.\<close>

definition reasonLine :: "jsstring \<Rightarrow> jsstring" where
  "reasonLine r =
     (if r \<noteq> [] then lit ''Reason for cancellation: '' @ r @ lit ''\<newline>'' else [])"

text \<open>
  The template literal, one line of the source per line here. The first argument is
  the value of \<open>new Date().toLocaleDateString()\<close> at the call, the only thing the
  function reads besides its argument.
\<close>

definition getTemplateLetter :: "jsstring \<Rightarrow> LetterData \<Rightarrow> jsstring" where
  "getTemplateLetter date data =
     fullName (user data) @ lit ''\<newline>'' @
     orElse (address (user data)) (lit []) @ lit ''\<newline>'' @
     email (user data) @ lit ''\<newline>'' @
     orElse (phone (user data)) (lit []) @ lit ''\<newline>'' @
     lit ''\<newline>'' @
     lit ''Date: '' @ date @ lit ''\<newline>'' @
     lit ''\<newline>'' @
     lit ''RE: Cancellation of '' @ serviceName (subscription data) @ lit '' Subscription\<newline>'' @
     lit ''Account Number: '' @ orElse (accountNumber (subscription data)) (lit ''N/A'') @ lit ''\<newline>'' @
     lit ''\<newline>'' @
     lit ''To the Customer Service Team at '' @ serviceName (subscription data) @ lit '',\<newline>'' @
     lit ''\<newline>'' @
     lit ''I am writing to formally request the cancellation of my '' @
       orElse (subscriptionPlan (subscription data)) (lit []) @ lit '' subscription, effective '' @
       effectiveDate (subscription data) @ lit ''.\<newline>'' @
     lit ''\<newline>'' @
     reasonLine (cancellationReason (subscription data)) @ lit ''\<newline>'' @
     lit ''Please stop all recurring payments associated with this account immediately. '' @
       toneAdjustment (tone data) @ lit ''\<newline>'' @
     lit ''\<newline>'' @
     lit ''Thank you for your prompt attention to this matter.\<newline>'' @
     lit ''\<newline>'' @
     lit ''Sincerely,\<newline>'' @
     lit ''\<newline>'' @
     fullName (user data)"

section \<open>The generator as it runs: objects, the clock, and exceptions\<close>

text \<open>
  The same function once more, with what the reading above leaves out: the argument
  is a reference to an object of the caller, a property read can raise, and
  \<open>new Date()\<close> makes an object and reads the clock. A value is \<open>undefined\<close>, a
  string, or a reference; an object is a record of properties or a date. Objects have
  no accessor properties and no conversion methods of their own: the interfaces of
  types.ts describe records of strings. The state holds the objects, the next unused
  address, the clock, the two date formats of the host (locale and time zone
  included), and the process environment.
\<close>

type_synonym addr = nat

datatype jsval = Undefined | Str jsstring | Ref addr

datatype jsobject = Record "string \<Rightarrow> jsval" | DateObject int

datatype jserror = TypeError

record world =
  objects :: "addr \<Rightarrow> jsobject"
  fresh :: addr
  clockTime :: int
  localeDate :: "int \<Rightarrow> jsstring"
  dateString :: "int \<Rightarrow> jsstring"
  environment :: "string \<Rightarrow> jsstring option"

type_synonym 'a js = "world \<Rightarrow> (jserror + 'a) \<times> world"

text \<open>A computation returns a value or raises, and leaves a state.\<close>

definition ret :: "'a \<Rightarrow> 'a js" where
  "ret x = (\<lambda>w. (Inr x, w))"

definition bnd :: "'a js \<Rightarrow> ('a \<Rightarrow> 'b js) \<Rightarrow> 'b js" where
  "bnd m f = (\<lambda>w. case m w of (Inl e, w') \<Rightarrow> (Inl e, w') | (Inr x, w') \<Rightarrow> f x w')"

text \<open>
  \<open>v.p\<close> for the property names this program reads: a \<open>TypeError\<close> on
  \<open>undefined\<close>, \<open>undefined\<close> where there is no such property.
\<close>

definition getProp :: "jsval \<Rightarrow> string \<Rightarrow> jsval js" where
  "getProp v p =
     (\<lambda>w. case v of
        Undefined \<Rightarrow> (Inl TypeError, w)
      | Str s \<Rightarrow> (Inr Undefined, w)
      | Ref a \<Rightarrow> (case objects w a of Record f \<Rightarrow> (Inr (f p), w) | DateObject t \<Rightarrow> (Inr Undefined, w)))"

text \<open>
  \<open>new Date()\<close> puts a date object with the time of the clock at the next unused
  address; \<open>toLocaleDateString()\<close> formats the time of a date object and is not a
  function on anything else.
\<close>

definition withDate :: "world \<Rightarrow> world" where
  "withDate w =
     w\<lparr> objects := (objects w)(fresh w := DateObject (clockTime w)), fresh := Suc (fresh w) \<rparr>"

definition newDate :: "jsval js" where
  "newDate = (\<lambda>w. (Inr (Ref (fresh w)), withDate w))"

definition toLocaleDateString :: "jsval \<Rightarrow> jsstring js" where
  "toLocaleDateString v =
     (\<lambda>w. case v of
        Ref a \<Rightarrow> (case objects w a of DateObject t \<Rightarrow> (Inr (localeDate w t), w) | Record f \<Rightarrow> (Inl TypeError, w))
      | _ \<Rightarrow> (Inl TypeError, w))"

text \<open>Truthiness, and \<open>v || d\<close> with a string \<open>d\<close>.\<close>

fun truthy :: "jsval \<Rightarrow> bool" where
  "truthy Undefined = False"
| "truthy (Str s) = (s \<noteq> [])"
| "truthy (Ref a) = True"

definition orValue :: "jsval \<Rightarrow> jsstring \<Rightarrow> jsval" where
  "orValue v d = (if truthy v then v else Str d)"

text \<open>The conversion to a string that a template literal applies to each interpolated value.\<close>

fun toStr :: "world \<Rightarrow> jsval \<Rightarrow> jsstring" where
  "toStr w Undefined = lit ''undefined''"
| "toStr w (Str s) = s"
| "toStr w (Ref a) = (case objects w a of Record f \<Rightarrow> lit ''[object Object]'' | DateObject t \<Rightarrow> dateString w t)"

definition interpolate :: "jsval js \<Rightarrow> jsstring js" where
  "interpolate m = bnd m (\<lambda>v w. (Inr (toStr w v), w))"

text \<open>A template literal: its parts are evaluated from left to right and concatenated.\<close>

fun template :: "jsstring js list \<Rightarrow> jsstring js" where
  "template [] = ret []"
| "template (p # ps) = bnd p (\<lambda>s. bnd (template ps) (\<lambda>r. ret (s @ r)))"

text \<open>The \<open>if\<close> / \<open>else if\<close> chain on the value read from \<open>data.tone\<close>, compared by \<open>===\<close> with the values of the enum.\<close>

definition toneAdjustmentOf :: "jsval \<Rightarrow> jsstring" where
  "toneAdjustmentOf v =
     (if v = Str (toneValue FIRM) then toneAdjustment FIRM
      else if v = Str (toneValue FRIENDLY) then toneAdjustment FRIENDLY
      else if v = Str (toneValue DIRECT) then toneAdjustment DIRECT
      else lit [])"

text \<open>The template literal of the \<open>return\<close> statement, one line of the source per line here.\<close>

definition templateLiteral :: "jsval \<Rightarrow> jsval \<Rightarrow> jsstring \<Rightarrow> jsstring \<Rightarrow> jsstring js" where
  "templateLiteral usr subscr date adjustment =
     template
      [interpolate (getProp usr ''fullName''), ret (lit ''\<newline>''),
       interpolate (bnd (getProp usr ''address'') (\<lambda>v. ret (orValue v (lit [])))), ret (lit ''\<newline>''),
       interpolate (getProp usr ''email''), ret (lit ''\<newline>''),
       interpolate (bnd (getProp usr ''phone'') (\<lambda>v. ret (orValue v (lit [])))), ret (lit ''\<newline>''),
       ret (lit ''\<newline>''),
       ret (lit ''Date: ''), ret date, ret (lit ''\<newline>''),
       ret (lit ''\<newline>''),
       ret (lit ''RE: Cancellation of ''), interpolate (getProp subscr ''serviceName''),
         ret (lit '' Subscription\<newline>''),
       ret (lit ''Account Number: ''),
         interpolate (bnd (getProp subscr ''accountNumber'') (\<lambda>v. ret (orValue v (lit ''N/A'')))),
         ret (lit ''\<newline>''),
       ret (lit ''\<newline>''),
       ret (lit ''To the Customer Service Team at ''), interpolate (getProp subscr ''serviceName''),
         ret (lit '',\<newline>''),
       ret (lit ''\<newline>''),
       ret (lit ''I am writing to formally request the cancellation of my ''),
         interpolate (bnd (getProp subscr ''subscriptionPlan'') (\<lambda>v. ret (orValue v (lit [])))),
         ret (lit '' subscription, effective ''),
         interpolate (getProp subscr ''effectiveDate''), ret (lit ''.\<newline>''),
       ret (lit ''\<newline>''),
       bnd (getProp subscr ''cancellationReason'') (\<lambda>c.
         if truthy c
         then template [ret (lit ''Reason for cancellation: ''),
                        interpolate (getProp subscr ''cancellationReason''), ret (lit ''\<newline>'')]
         else ret (lit [])),
         ret (lit ''\<newline>''),
       ret (lit ''Please stop all recurring payments associated with this account immediately. ''),
         ret adjustment, ret (lit ''\<newline>''),
       ret (lit ''\<newline>''),
       ret (lit ''Thank you for your prompt attention to this matter.\<newline>''),
       ret (lit ''\<newline>''),
       ret (lit ''Sincerely,\<newline>''),
       ret (lit ''\<newline>''),
       interpolate (getProp usr ''fullName'')]"

text \<open>
  The body: the destructuring of \<open>data\<close>, the date, the tone adjustment, the
  template literal.
\<close>

definition getTemplateLetterJS :: "jsval \<Rightarrow> jsstring js" where
  "getTemplateLetterJS data =
     bnd (getProp data ''user'') (\<lambda>user.
     bnd (getProp data ''subscription'') (\<lambda>subscription.
     bnd (getProp data ''tone'') (\<lambda>tone.
     bnd (bnd newDate toLocaleDateString) (\<lambda>date.
     templateLiteral user subscription date (toneAdjustmentOf tone)))))"

text \<open>One call after the other on the same argument, the results dropped.\<close>

fun callTimes :: "nat \<Rightarrow> jsval \<Rightarrow> world \<Rightarrow> world" where
  "callTimes 0 data w = w"
| "callTimes (Suc n) data w = callTimes n data (snd (getTemplateLetterJS data w))"

section \<open>The network-backed generator and its fallback (generateCancellationLetter)\<close>

text \<open>
  The remote model is outside the program: a call of \<open>generateContent\<close> either
  raises or resolves to a response whose \<open>text\<close> is a string or undefined. The client
  is a function of the API key, the model name and the prompt, and nothing else is
  assumed about it. Constructing the client, which happens before the \<open>try\<close>, is
  taken to return: it stores the key. The messages written to the console are left out.
\<close>

datatype api_outcome = Throws | Response "jsstring option"

type_synonym genai = "jsstring \<Rightarrow> jsstring \<Rightarrow> jsstring \<Rightarrow> api_outcome"

definition letterPrompt :: "LetterData \<Rightarrow> jsstring" where
  "letterPrompt data =
     lit ''\<newline>'' @
     lit ''    Generate a professional subscription cancellation letter based on the following details:\<newline>'' @
     lit ''    \<newline>'' @
     lit ''    User Name: '' @ fullName (user data) @ lit ''\<newline>'' @
     lit ''    User Email: '' @ email (user data) @ lit ''\<newline>'' @
     lit ''    User Phone: '' @ phone (user data) @ lit ''\<newline>'' @
     lit ''    User Address: '' @ address (user data) @ lit ''\<newline>'' @
     lit ''    \<newline>'' @
     lit ''    Service Provider: '' @ serviceName (subscription data) @ lit ''\<newline>'' @
     lit ''    Account/Member Number: '' @ accountNumber (subscription data) @ lit ''\<newline>'' @
     lit ''    Plan Type: '' @ subscriptionPlan (subscription data) @ lit ''\<newline>'' @
     lit ''    Reason for Cancellation: '' @
       orElse (cancellationReason (subscription data)) (lit ''Not specified'') @ lit ''\<newline>'' @
     lit ''    Requested End Date: '' @ effectiveDate (subscription data) @ lit ''\<newline>'' @
     lit ''    \<newline>'' @
     lit ''    Tone: '' @ toneValue (tone data) @ lit ''\<newline>'' @
     lit ''    \<newline>'' @
     lit ''    Rules for the letter:\<newline>'' @
     lit ''    1. Include standard business letter formatting.\<newline>'' @
     lit ''    2. Be clear about the request to terminate services and stop all future billing.\<newline>'' @
     lit ''    3. If the tone is '' @ [0x27] @ lit ''Firm & Legalistic'' @ [0x27] @
       lit '', mention consumer rights and request written confirmation.\<newline>'' @
     lit ''    4. If the tone is '' @ [0x27] @ lit ''Polite & Friendly'' @ [0x27] @
       lit '', thank them for the service but state the need to move on.\<newline>'' @
     lit ''    5. Ensure the letter is complete and ready for use.\<newline>'' @
     lit ''    6. Do not use placeholders like [Your Name].\<newline>'' @
     lit ''  ''"

definition modelName :: jsstring where
  "modelName = lit ''gemini-3-flash-preview''"

text \<open>
  The result of the promise. \<open>process.env.API_KEY\<close> is a string or undefined;
  \<open>!apiKey || apiKey === 'undefined'\<close> holds for undefined, for the empty string
  and for the string \<open>undefined\<close>. The date is read only where the template is used.
  \<open>response.text || getTemplateLetter(data)\<close> takes the template for an undefined
  and for an empty text.
\<close>

definition generateCancellationLetter ::
  "jsstring option \<Rightarrow> genai \<Rightarrow> jsstring \<Rightarrow> LetterData \<Rightarrow> jsstring" where
  "generateCancellationLetter apiKey ai date data =
     (case apiKey of
        None \<Rightarrow> getTemplateLetter date data
      | Some k \<Rightarrow>
          (if k = [] \<or> k = lit ''undefined'' then getTemplateLetter date data
           else
             (case ai k modelName (letterPrompt data) of
                Throws \<Rightarrow> getTemplateLetter date data
              | Response None \<Rightarrow> getTemplateLetter date data
              | Response (Some t) \<Rightarrow> (if t = [] then getTemplateLetter date data else t))))"

section \<open>The suggestion service (suggestCancellationReason)\<close>

definition defaultReasons :: "jsstring list" where
  "defaultReasons =
     [lit ''Cost is too high'', lit ''No longer using the service'',
      lit ''Found a better alternative'', lit ''Moving to a different location'']"

definition suggestPrompt :: "jsstring \<Rightarrow> jsstring" where
  "suggestPrompt name =
     lit ''Provide 4 short, professional reasons someone might want to cancel a subscription for \"'' @
     name @ lit ''\". Return them as a simple list.''"

text \<open>
  The white space of \<open>String.prototype.trim\<close> and of the class \<open>\s\<close>: the code
  units of WhiteSpace and LineTerminator of the language.
\<close>

definition isWhiteSpace :: "nat \<Rightarrow> bool" where
  "isWhiteSpace c \<longleftrightarrow>
     c = 0x09 \<or> c = 0x0A \<or> c = 0x0B \<or> c = 0x0C \<or> c = 0x0D \<or> c = 0x20 \<or> c = 0xA0 \<or>
     c = 0x1680 \<or> (0x2000 \<le> c \<and> c \<le> 0x200A) \<or> c = 0x2028 \<or> c = 0x2029 \<or>
     c = 0x202F \<or> c = 0x205F \<or> c = 0x3000 \<or> c = 0xFEFF"

text \<open>The class \<open>\d\<close> without the unicode flag: the ten ASCII digits.\<close>

definition isDigit :: "nat \<Rightarrow> bool" where
  "isDigit c \<longleftrightarrow> 0x30 \<le> c \<and> c \<le> 0x39"

definition trim :: "jsstring \<Rightarrow> jsstring" where
  "trim s = rev (dropWhile isWhiteSpace (rev (dropWhile isWhiteSpace s)))"

text \<open>
  \<open>text.split('\n')\<close>: the pieces between line feeds; the empty string gives one
  empty piece. The accumulator holds the current piece in reverse.
\<close>

fun splitAcc :: "jsstring \<Rightarrow> jsstring \<Rightarrow> jsstring list" where
  "splitAcc acc [] = [rev acc]"
| "splitAcc acc (c # cs) =
     (if c = 0x0A then rev acc # splitAcc [] cs else splitAcc (c # acc) cs)"

definition splitLines :: "jsstring \<Rightarrow> jsstring list" where
  "splitLines s = splitAcc [] s"

text \<open>
  \<open>line.replace(/^\d+\.\s*/, '')\<close>: at the start of the string only, one or more
  digits, a full stop, and all the white space that follows are removed; a string
  that does not start so is unchanged. After the longest run of digits the next code
  unit is not a digit, so a shorter run cannot be followed by the full stop either.
\<close>

definition stripNumbering :: "jsstring \<Rightarrow> jsstring" where
  "stripNumbering line =
     (case dropWhile isDigit line of
        [] \<Rightarrow> line
      | c # rest \<Rightarrow>
          (if takeWhile isDigit line \<noteq> [] \<and> c = 0x2E then dropWhile isWhiteSpace rest
           else line))"

definition parseLines :: "jsstring \<Rightarrow> jsstring list" where
  "parseLines txt =
     map (\<lambda>line. trim (stripNumbering line))
       (filter (\<lambda>line. length (trim line) > 0) (splitLines txt))"

text \<open>\<open>response.text || ""\<close>, where the text is a string or undefined.\<close>

definition responseText :: "jsstring option \<Rightarrow> jsstring" where
  "responseText r = (case r of None \<Rightarrow> lit [] | Some t \<Rightarrow> orElse t (lit []))"

text \<open>The parse of the text, then \<open>slice(0, 4)\<close> or the defaults.\<close>

definition suggestCancellationReason :: "jsstring option \<Rightarrow> genai \<Rightarrow> jsstring \<Rightarrow> jsstring list" where
  "suggestCancellationReason apiKey ai name =
     (case apiKey of
        None \<Rightarrow> defaultReasons
      | Some k \<Rightarrow>
          (if k = [] \<or> k = lit ''undefined'' then defaultReasons
           else
             (case ai k modelName (suggestPrompt name) of
                Throws \<Rightarrow> defaultReasons
              | Response r \<Rightarrow>
                  (let txt = responseText r;
                       lines = parseLines txt
                   in if length lines > 0 then take 4 lines else defaultReasons))))"

section \<open>Notions used to state the properties\<close>

text \<open>
  The number of positions of a string at which a given text starts, and whether a text
  that starts before a string \<open>b\<close> can end inside it: some proper, non-empty
  end of the text is a beginning of \<open>b\<close>.
\<close>

primrec occurrences :: "'a list \<Rightarrow> 'a list \<Rightarrow> nat" where
  "occurrences n [] = 0"
| "occurrences n (x # xs) = (if prefix n (x # xs) then 1 else 0) + occurrences n xs"

definition straddles :: "'a list \<Rightarrow> 'a list \<Rightarrow> bool" where
  "straddles n b = list_ex (\<lambda>t. t \<noteq> [] \<and> prefix t b) (suffixes (tl n))"

definition reasonLabel :: jsstring where
  "reasonLabel = lit ''Reason for cancellation:''"

text \<open>Everything the template interpolates besides the reason and the tone.\<close>

definition otherFields :: "jsstring \<Rightarrow> LetterData \<Rightarrow> jsstring list" where
  "otherFields date data =
     [fullName (user data), address (user data), email (user data), phone (user data), date,
      serviceName (subscription data), accountNumber (subscription data),
      subscriptionPlan (subscription data), effectiveDate (subscription data)]"

text \<open>
  The sender block as the specification words it, for comparison with the template:
  full name, address (omitted line if empty), email, phone (omitted line if empty).
\<close>

definition senderBlockSpec :: "UserDetails \<Rightarrow> jsstring" where
  "senderBlockSpec u =
     fullName u @ lit ''\<newline>'' @
     (if address u = [] then [] else address u @ lit ''\<newline>'') @
     email u @ lit ''\<newline>'' @
     (if phone u = [] then [] else phone u @ lit ''\<newline>'')"

text \<open>The request of the scenario, with the tone left open.\<close>

definition janeDoe :: "Tone \<Rightarrow> LetterData" where
  "janeDoe t =
     \<lparr> user = \<lparr> fullName = lit ''Jane Doe'', email = lit ''jane@x.com'',
                address = lit ''1 Main St'', phone = lit [] \<rparr>,
       subscription = \<lparr> serviceName = lit ''Netflix'', accountNumber = lit [],
                        subscriptionPlan = lit ''Premium'',
                        cancellationReason = lit ''Too expensive'',
                        effectiveDate = lit ''2024-01-01'' \<rparr>,
       tone = t \<rparr>"

text \<open>The same request with an account number.\<close>

definition janeWithAccount :: LetterData where
  "janeWithAccount =
     (janeDoe FORMAL)\<lparr> subscription :=
        (subscription (janeDoe FORMAL))\<lparr> accountNumber := lit ''A-1029'' \<rparr> \<rparr>"

text \<open>The form as it is before anything is typed, on a given day.\<close>

definition emptyRequest :: "jsstring \<Rightarrow> LetterData" where
  "emptyRequest today =
     \<lparr> user = \<lparr> fullName = lit [], email = lit [], address = lit [], phone = lit [] \<rparr>,
       subscription = \<lparr> serviceName = lit [], accountNumber = lit [],
                        subscriptionPlan = lit [], cancellationReason = lit [],
                        effectiveDate = today \<rparr>,
       tone = FORMAL \<rparr>"

text \<open>Remote models for the examples: one that raises, and one that answers a fixed text.\<close>

definition raisingModel :: genai where
  "raisingModel k m p = Throws"

definition answeringModel :: "jsstring option \<Rightarrow> genai" where
  "answeringModel r k m p = Response r"

text \<open>
  A value holds a request in a state when it refers to a record, made before now,
  whose \<open>user\<close> and \<open>subscription\<close> refer to such records, and the properties are
  the strings of the request.
\<close>

definition isRecord :: "world \<Rightarrow> jsval \<Rightarrow> bool" where
  "isRecord w v =
     (case v of
        Ref a \<Rightarrow> a < fresh w \<and> (case objects w a of Record f \<Rightarrow> True | DateObject t \<Rightarrow> False)
      | _ \<Rightarrow> False)"

definition fieldOf :: "world \<Rightarrow> jsval \<Rightarrow> string \<Rightarrow> jsval" where
  "fieldOf w v p =
     (case v of
        Ref a \<Rightarrow> (case objects w a of Record f \<Rightarrow> f p | DateObject t \<Rightarrow> Undefined)
      | _ \<Rightarrow> Undefined)"

definition represents :: "world \<Rightarrow> jsval \<Rightarrow> LetterData \<Rightarrow> bool" where
  "represents w v data \<longleftrightarrow>
     isRecord w v \<and> isRecord w (fieldOf w v ''user'') \<and> isRecord w (fieldOf w v ''subscription'') \<and>
     fieldOf w v ''tone'' = Str (toneValue (tone data)) \<and>
     fieldOf w (fieldOf w v ''user'') ''fullName'' = Str (fullName (user data)) \<and>
     fieldOf w (fieldOf w v ''user'') ''email'' = Str (email (user data)) \<and>
     fieldOf w (fieldOf w v ''user'') ''address'' = Str (address (user data)) \<and>
     fieldOf w (fieldOf w v ''user'') ''phone'' = Str (phone (user data)) \<and>
     fieldOf w (fieldOf w v ''subscription'') ''serviceName'' = Str (serviceName (subscription data)) \<and>
     fieldOf w (fieldOf w v ''subscription'') ''accountNumber'' = Str (accountNumber (subscription data)) \<and>
     fieldOf w (fieldOf w v ''subscription'') ''subscriptionPlan'' = Str (subscriptionPlan (subscription data)) \<and>
     fieldOf w (fieldOf w v ''subscription'') ''cancellationReason'' = Str (cancellationReason (subscription data)) \<and>
     fieldOf w (fieldOf w v ''subscription'') ''effectiveDate'' = Str (effectiveDate (subscription data))"

text \<open>A computation that returns a given value and leaves the state as it is; one that never changes the state.\<close>

definition yields :: "'a js \<Rightarrow> world \<Rightarrow> 'a \<Rightarrow> bool" where
  "yields m w x \<longleftrightarrow> m w = (Inr x, w)"

definition silent :: "'a js \<Rightarrow> bool" where
  "silent m \<longleftrightarrow> (\<forall>w. snd (m w) = w)"

text \<open>
  A request laid out as three records at given addresses, and two states for the
  examples: one with the request at the first three addresses, and one with the
  request of the scenario elsewhere, among date objects, later on the same day, with
  a key in the environment.
\<close>

definition userRecord :: "UserDetails \<Rightarrow> string \<Rightarrow> jsval" where
  "userRecord u p =
     (if p = ''fullName'' then Str (fullName u)
      else if p = ''email'' then Str (email u)
      else if p = ''address'' then Str (address u)
      else if p = ''phone'' then Str (phone u)
      else Undefined)"

definition subscriptionRecord :: "SubscriptionDetails \<Rightarrow> string \<Rightarrow> jsval" where
  "subscriptionRecord s p =
     (if p = ''serviceName'' then Str (serviceName s)
      else if p = ''accountNumber'' then Str (accountNumber s)
      else if p = ''subscriptionPlan'' then Str (subscriptionPlan s)
      else if p = ''cancellationReason'' then Str (cancellationReason s)
      else if p = ''effectiveDate'' then Str (effectiveDate s)
      else Undefined)"

definition letterRecord :: "addr \<Rightarrow> addr \<Rightarrow> Tone \<Rightarrow> string \<Rightarrow> jsval" where
  "letterRecord ua sa t p =
     (if p = ''user'' then Ref ua
      else if p = ''subscription'' then Ref sa
      else if p = ''tone'' then Str (toneValue t)
      else Undefined)"

definition store :: "addr \<Rightarrow> addr \<Rightarrow> addr \<Rightarrow> LetterData \<Rightarrow> (addr \<Rightarrow> jsobject) \<Rightarrow> addr \<Rightarrow> jsobject" where
  "store a ua sa data h =
     h(a := Record (letterRecord ua sa (tone data)),
       ua := Record (userRecord (user data)),
       sa := Record (subscriptionRecord (subscription data)))"

definition requestWorld :: "LetterData \<Rightarrow> jsstring \<Rightarrow> world" where
  "requestWorld data today =
     \<lparr> objects = store 0 1 2 data (\<lambda>a. Record (\<lambda>p. Undefined)), fresh = 3, clockTime = 0,
       localeDate = (\<lambda>t. today), dateString = (\<lambda>t. today), environment = (\<lambda>k. None) \<rparr>"

definition otherWorld :: world where
  "otherWorld =
     \<lparr> objects = store 7 4 5 (janeDoe FIRM) (\<lambda>a. DateObject 0), fresh = 9, clockTime = 86399,
       localeDate = (\<lambda>t. if t < 86400 then lit ''1/1/2024'' else lit ''1/2/2024''),
       dateString = (\<lambda>t. lit ''Mon Jan 01 2024''),
       environment = (\<lambda>k. if k = ''API_KEY'' then Some (lit ''key-1'') else None) \<rparr>"

text \<open>
  Requests whose other fields carry text of the template: a full name that reads like a
  reason line, without and with a reason, and an address whose second line is the
  friendly addendum.
\<close>

definition reasonInName :: "jsstring \<Rightarrow> LetterData" where
  "reasonInName r =
     \<lparr> user = \<lparr> fullName = lit ''Reason for cancellation: Too expensive'',
                email = lit ''jane@x.com'', address = lit ''1 Main St'', phone = lit [] \<rparr>,
       subscription = \<lparr> serviceName = lit ''Netflix'', accountNumber = lit [],
                        subscriptionPlan = lit ''Premium'', cancellationReason = r,
                        effectiveDate = lit ''2024-01-01'' \<rparr>,
       tone = FORMAL \<rparr>"

definition addendumInAddress :: "Tone \<Rightarrow> LetterData" where
  "addendumInAddress t =
     (janeDoe t)\<lparr> user :=
        (user (janeDoe t))\<lparr> address := lit ''1 Main St'' @ toneAdjustment FRIENDLY \<rparr> \<rparr>"

text \<open>
  The words with which each addendum opens, after its line break, and the values that
  the template interpolates besides the tone: all that the caller supplies, and the date.
\<close>

fun addendumOpening :: "Tone \<Rightarrow> jsstring" where
  "addendumOpening FORMAL = lit []"
| "addendumOpening FIRM = lit ''Please be advised''"
| "addendumOpening FRIENDLY = lit ''I have enjoyed''"
| "addendumOpening DIRECT = lit ''Please process''"

definition interpolated :: "jsstring \<Rightarrow> LetterData \<Rightarrow> jsstring list" where
  "interpolated date data = otherFields date data @ [cancellationReason (subscription data)]"

text \<open>The tones whose addendum occurs somewhere in a text.\<close>

definition addendaIn :: "jsstring \<Rightarrow> Tone list" where
  "addendaIn s = filter (\<lambda>t. sublist (toneAdjustment t) s) [FIRM, FRIENDLY, DIRECT]"

text \<open>
  The interpolated values carry the addendum of a tone into the letter when one of
  them contains it; when the full name, the address, the email or the phone begins
  with its text after the line break, which the template supplies in front of these
  lines (for the full name, in front of the signature); or when the effective date
  ends with it up to the final full stop, which the template supplies behind the date.
\<close>

definition carries :: "jsstring \<Rightarrow> LetterData \<Rightarrow> Tone \<Rightarrow> bool" where
  "carries date data t \<longleftrightarrow>
     list_ex (sublist (toneAdjustment t)) (interpolated date data) \<or>
     list_ex (prefix (tl (toneAdjustment t)))
       [fullName (user data), address (user data), email (user data), phone (user data)] \<or>
     suffix (butlast (toneAdjustment t)) (effectiveDate (subscription data))"

text \<open>
  The request of the scenario with a reason that opens with words of the friendly
  addendum.
\<close>

definition janeEnjoyed :: LetterData where
  "janeEnjoyed =
     (janeDoe FIRM)\<lparr> subscription :=
        (subscription (janeDoe FIRM))\<lparr> cancellationReason :=
           lit ''I have enjoyed it, but it costs too much'' \<rparr> \<rparr>"

text \<open>
  The lines of a response, described by their parts. A numbered line is a run of
  digits, a full stop, a gap of white space, a body, and trailing white space. A plain
  line is an indentation of white space, a body, and trailing white space. The body
  neither begins nor ends with white space; it may be empty. \<open>render\<close> is the line as
  it stands in the text, \<open>entry\<close> what the list is to show for it.
\<close>

datatype listLine = Numbered jsstring jsstring jsstring jsstring | Plain jsstring jsstring jsstring

fun render :: "listLine \<Rightarrow> jsstring" where
  "render (Numbered number gap body trail) = number @ [0x2E] @ gap @ body @ trail"
| "render (Plain indent body trail) = indent @ body @ trail"

fun entry :: "listLine \<Rightarrow> jsstring" where
  "entry (Numbered number gap body trail) = body"
| "entry (Plain indent body trail) = body"

text \<open>A blank line has nothing but white space.\<close>

fun blankLine :: "listLine \<Rightarrow> bool" where
  "blankLine (Numbered number gap body trail) = False"
| "blankLine (Plain indent body trail) = (body = [])"

definition trimmedText :: "jsstring \<Rightarrow> bool" where
  "trimmedText b \<longleftrightarrow> b = [] \<or> (\<not> isWhiteSpace (hd b) \<and> \<not> isWhiteSpace (last b))"

text \<open>A text that begins with one or more digits and a full stop.\<close>

definition numberedStart :: "jsstring \<Rightarrow> bool" where
  "numberedStart s \<longleftrightarrow> takeWhile isDigit s \<noteq> [] \<and> prefix [0x2E] (dropWhile isDigit s)"

text \<open>
  The parts are what their names say, and no part holds a line feed. A plain line
  that is not indented does not begin with a numbering: such a line is a numbered
  line. An indented plain line may have a body that begins with a numbering.
\<close>

fun wellFormed :: "listLine \<Rightarrow> bool" where
  "wellFormed (Numbered number gap body trail) \<longleftrightarrow>
     number \<noteq> [] \<and> list_all isDigit number \<and> list_all isWhiteSpace gap \<and>
     list_all isWhiteSpace trail \<and> trimmedText body \<and> 0x0A \<notin> set (gap @ body @ trail)"
| "wellFormed (Plain indent body trail) \<longleftrightarrow>
     list_all isWhiteSpace indent \<and> list_all isWhiteSpace trail \<and> trimmedText body \<and>
     0x0A \<notin> set (indent @ body @ trail) \<and> (indent = [] \<longrightarrow> \<not> numberedStart body)"

text \<open>Lines put together into one text, a line feed between each two.\<close>

fun joinLines :: "jsstring list \<Rightarrow> jsstring" where
  "joinLines [] = []"
| "joinLines (l # ls) = l @ concat (map (\<lambda>x. 0x0A # x) ls)"

section \<open>Basic facts about literals\<close>

lemma lit_Nil [simp]: "lit [] = []"
  by (simp add: lit_def)

lemma lit_Cons [simp]: "lit (c # s) = of_char c # lit s"
  by (simp add: lit_def)

lemma lit_append: "lit (a @ b) = lit a @ lit b"
  by (simp add: lit_def)

lemma orElse_Nil [simp]: "orElse a [] = a"
  by (simp add: orElse_def)

lemma sublist_of_prefix: "prefix (p @ x) s \<Longrightarrow> sublist x s"
  by (auto simp: sublist_def prefix_def)

lemma sublist_of_suffix: "suffix (x @ q) s \<Longrightarrow> sublist x s"
  by (auto simp: sublist_def suffix_def)

section \<open>The sender block\<close>

text \<open>
  C1 (as amended). The letter always begins with four lines, the full name, the address,
  the email and the phone, each ended by a line break, followed by a blank line and the
  date line. An empty address or phone leaves an empty line in its place: the line
  break after it is part of the template, not of the interpolated value.
\<close>

theorem senderBlock_four_lines:
  "prefix (fullName (user data) @ lit ''\<newline>'' @ address (user data) @ lit ''\<newline>'' @
           email (user data) @ lit ''\<newline>'' @ phone (user data) @ lit ''\<newline>'' @
           lit ''\<newline>Date: '')
     (getTemplateLetter date data)"
  by (simp add: getTemplateLetter_def)

text \<open>
  C1 as the specification states it fails: in the scenario request the phone is empty,
  and the letter does not begin with the sender block without the phone line followed
  by the blank line and the date line. It has one more empty line, where the phone
  would be.
\<close>

theorem senderBlock_counterexample:
  "phone (user (janeDoe FIRM)) = [] \<and>
   \<not> prefix (senderBlockSpec (user (janeDoe FIRM)) @ lit ''\<newline>Date: '')
       (getTemplateLetter (lit ''1/1/2024'') (janeDoe FIRM)) \<and>
   prefix (lit ''Jane Doe\<newline>1 Main St\<newline>jane@x.com\<newline>\<newline>\<newline>Date: '')
       (getTemplateLetter (lit ''1/1/2024'') (janeDoe FIRM))"
  by (simp add: getTemplateLetter_def senderBlockSpec_def janeDoe_def)

section \<open>The account number line\<close>

text \<open>
  C4. With an empty account number the letter contains the line
  \<open>Account Number: N/A\<close>; otherwise it contains the line that starts with
  \<open>Account Number: \<close> and goes on with the account number as given.
\<close>

theorem accountNumber_line:
  "(accountNumber (subscription data) = [] \<longrightarrow>
      sublist (lit ''\<newline>Account Number: N/A\<newline>'') (getTemplateLetter date data)) \<and>
   (accountNumber (subscription data) \<noteq> [] \<longrightarrow>
      sublist (lit ''\<newline>Account Number: '' @ accountNumber (subscription data) @ lit ''\<newline>'')
        (getTemplateLetter date data))"
proof -
  let ?p = "fullName (user data) @ lit ''\<newline>'' @ address (user data) @ lit ''\<newline>'' @
     email (user data) @ lit ''\<newline>'' @ phone (user data) @ lit ''\<newline>\<newline>Date: '' @ date @
     lit ''\<newline>\<newline>RE: Cancellation of '' @ serviceName (subscription data) @ lit '' Subscription''"
  let ?x = "lit ''\<newline>Account Number: '' @
     orElse (accountNumber (subscription data)) (lit ''N/A'') @ lit ''\<newline>''"
  have "prefix (?p @ ?x) (getTemplateLetter date data)"
    by (simp add: getTemplateLetter_def)
  then have "sublist ?x (getTemplateLetter date data)"
    by (rule sublist_of_prefix)
  then show ?thesis
    by (cases "accountNumber (subscription data) = []") (simp_all add: orElse_def)
qed

theorem accountNumber_line_witness:
  "accountNumber (subscription (janeDoe FIRM)) = [] \<and>
   sublist (lit ''\<newline>Account Number: N/A\<newline>'')
     (getTemplateLetter (lit ''1/1/2024'') (janeDoe FIRM)) \<and>
   accountNumber (subscription janeWithAccount) \<noteq> [] \<and>
   sublist (lit ''\<newline>Account Number: A-1029\<newline>'')
     (getTemplateLetter (lit ''1/1/2024'') janeWithAccount)"
  using accountNumber_line [of "janeDoe FIRM" "lit ''1/1/2024''"]
    accountNumber_line [of janeWithAccount "lit ''1/1/2024''"]
  by (simp add: janeDoe_def janeWithAccount_def)

section \<open>The scenario of the specification\<close>



section \<open>Determinism, totality, and the caller's objects\<close>

text \<open>
  The run of the function on an argument that holds a request: every read finds its
  string, so nothing raises, and the result is the letter of the pure reading for the
  date that the clock and the locale give. The state afterwards is the state before
  with the one date object added.
\<close>

lemma yields_ret: "yields (ret x) w x"
  by (simp add: yields_def ret_def)

lemma yields_bnd: "yields m w x \<Longrightarrow> yields (f x) w y \<Longrightarrow> yields (bnd m f) w y"
  by (simp add: yields_def bnd_def)

lemma yields_getProp: "isRecord w v \<Longrightarrow> yields (getProp v p) w (fieldOf w v p)"
  by (auto simp: yields_def getProp_def isRecord_def fieldOf_def split: jsval.splits jsobject.splits)

lemma yields_sub: "yields m w (Str s) \<Longrightarrow> yields (interpolate m) w s"
  by (simp add: yields_def interpolate_def bnd_def)

lemma yields_template_Cons:
  "yields p w s \<Longrightarrow> yields (template ps) w r \<Longrightarrow> yields (template (p # ps)) w (s @ r)"
  by (simp add: yields_def bnd_def ret_def)

lemma yields_template_Nil: "yields (template []) w []"
  by (simp add: yields_def ret_def)

lemma yields_field:
  "isRecord w v \<Longrightarrow> fieldOf w v p = Str s \<Longrightarrow> yields (interpolate (getProp v p)) w s"
  using yields_getProp [of w v p] by (simp add: yields_sub)

lemma yields_field_or:
  "isRecord w v \<Longrightarrow> fieldOf w v p = Str s \<Longrightarrow>
   yields (interpolate (bnd (getProp v p) (\<lambda>x. ret (orValue x d)))) w (orElse s d)"
  using yields_getProp [of w v p]
  by (auto simp: yields_def interpolate_def bnd_def ret_def orValue_def orElse_def)

lemma yields_reason:
  assumes "isRecord w v" "fieldOf w v ''cancellationReason'' = Str s"
  shows "yields (bnd (getProp v ''cancellationReason'') (\<lambda>c.
         if truthy c
         then template [ret (lit ''Reason for cancellation: ''),
                        interpolate (getProp v ''cancellationReason''), ret (lit ''\<newline>'')]
         else ret (lit []))) w (reasonLine s)"
proof -
  have g: "yields (getProp v ''cancellationReason'') w (Str s)"
    using yields_getProp [OF assms(1), of "''cancellationReason''"] assms(2) by simp
  show ?thesis
  proof (cases "s = []")
    case True
    with g show ?thesis
      by (simp add: yields_def bnd_def ret_def reasonLine_def)
  next
    case False
    have "yields (template [ret (lit ''Reason for cancellation: ''),
                        interpolate (getProp v ''cancellationReason''), ret (lit ''\<newline>'')]) w
            (lit ''Reason for cancellation: '' @ s @ lit ''\<newline>'' @ [])"
      by (intro yields_template_Cons yields_template_Nil yields_ret yields_field assms)
    with False g show ?thesis
      by (simp add: yields_def bnd_def reasonLine_def)
  qed
qed

lemma isRecord_withDate: "isRecord w v \<Longrightarrow> isRecord (withDate w) v"
  by (auto simp: isRecord_def withDate_def split: jsval.splits)

lemma fieldOf_withDate: "isRecord w v \<Longrightarrow> fieldOf (withDate w) v p = fieldOf w v p"
  by (auto simp: isRecord_def fieldOf_def withDate_def split: jsval.splits)

lemma represents_withDate: "represents w v data \<Longrightarrow> represents (withDate w) v data"
  by (simp add: represents_def isRecord_withDate fieldOf_withDate)

lemma toneAdjustmentOf_toneValue: "toneAdjustmentOf (Str (toneValue t)) = toneAdjustment t"
  by (cases t) (simp_all add: toneAdjustmentOf_def toneAdjustment_def)

lemma date_step:
  "bnd newDate toLocaleDateString w = (Inr (localeDate w (clockTime w)), withDate w)"
  by (simp add: bnd_def newDate_def toLocaleDateString_def withDate_def)

lemma yields_templateLiteral:
  assumes "isRecord w u" "isRecord w s"
    "fieldOf w u ''fullName'' = Str (fullName (user data))"
    "fieldOf w u ''email'' = Str (email (user data))"
    "fieldOf w u ''address'' = Str (address (user data))"
    "fieldOf w u ''phone'' = Str (phone (user data))"
    "fieldOf w s ''serviceName'' = Str (serviceName (subscription data))"
    "fieldOf w s ''accountNumber'' = Str (accountNumber (subscription data))"
    "fieldOf w s ''subscriptionPlan'' = Str (subscriptionPlan (subscription data))"
    "fieldOf w s ''cancellationReason'' = Str (cancellationReason (subscription data))"
    "fieldOf w s ''effectiveDate'' = Str (effectiveDate (subscription data))"
  shows "yields (templateLiteral u s date (toneAdjustment (tone data))) w (getTemplateLetter date data)"
proof -
  have "yields (templateLiteral u s date (toneAdjustment (tone data))) w
     (fullName (user data) @ lit ''\<newline>'' @
     orElse (address (user data)) (lit []) @ lit ''\<newline>'' @
     email (user data) @ lit ''\<newline>'' @
     orElse (phone (user data)) (lit []) @ lit ''\<newline>'' @
     lit ''\<newline>'' @
     lit ''Date: '' @ date @ lit ''\<newline>'' @
     lit ''\<newline>'' @
     lit ''RE: Cancellation of '' @ serviceName (subscription data) @ lit '' Subscription\<newline>'' @
     lit ''Account Number: '' @ orElse (accountNumber (subscription data)) (lit ''N/A'') @ lit ''\<newline>'' @
     lit ''\<newline>'' @
     lit ''To the Customer Service Team at '' @ serviceName (subscription data) @ lit '',\<newline>'' @
     lit ''\<newline>'' @
     lit ''I am writing to formally request the cancellation of my '' @
       orElse (subscriptionPlan (subscription data)) (lit []) @ lit '' subscription, effective '' @
       effectiveDate (subscription data) @ lit ''.\<newline>'' @
     lit ''\<newline>'' @
     reasonLine (cancellationReason (subscription data)) @ lit ''\<newline>'' @
     lit ''Please stop all recurring payments associated with this account immediately. '' @
       toneAdjustment (tone data) @ lit ''\<newline>'' @
     lit ''\<newline>'' @
     lit ''Thank you for your prompt attention to this matter.\<newline>'' @
     lit ''\<newline>'' @
     lit ''Sincerely,\<newline>'' @
     lit ''\<newline>'' @
     fullName (user data) @ [])"
    unfolding templateLiteral_def
    by (intro yields_template_Cons yields_template_Nil yields_ret yields_field yields_field_or
        yields_reason assms)
  then show ?thesis
    unfolding getTemplateLetter_def by (simp only: append_Nil2)
qed

lemma getTemplateLetterJS_represents:
  assumes "represents w v data"
  shows "getTemplateLetterJS v w =
     (Inr (getTemplateLetter (localeDate w (clockTime w)) data), withDate w)"
proof -
  let ?u = "fieldOf w v ''user''" and ?s = "fieldOf w v ''subscription''"
  from assms have v: "isRecord w v" and t: "fieldOf w v ''tone'' = Str (toneValue (tone data))"
    by (simp_all add: represents_def)
  from represents_withDate [OF assms]
  have "yields (templateLiteral (fieldOf (withDate w) v ''user'') (fieldOf (withDate w) v ''subscription'')
          (localeDate w (clockTime w)) (toneAdjustment (tone data))) (withDate w)
          (getTemplateLetter (localeDate w (clockTime w)) data)"
    unfolding represents_def by (intro yields_templateLiteral) simp_all
  then have y: "templateLiteral ?u ?s (localeDate w (clockTime w)) (toneAdjustment (tone data)) (withDate w) =
      (Inr (getTemplateLetter (localeDate w (clockTime w)) data), withDate w)"
    using v by (simp add: yields_def fieldOf_withDate)
  have g: "\<And>p. getProp v p w = (Inr (fieldOf w v p), w)"
    using yields_getProp [OF v] by (simp add: yields_def)
  show ?thesis
    unfolding getTemplateLetterJS_def
    by (simp add: bnd_def [of "getProp v _"] g bnd_def [of "bnd newDate toLocaleDateString"]
        date_step t toneAdjustmentOf_toneValue y)
qed

text \<open>
  Reads, conversions and concatenation leave the state alone, so the only change a
  call can make, whatever its argument, is the date object.
\<close>

lemma silent_ret: "silent (ret x)"
  by (simp add: silent_def ret_def)

lemma silent_getProp: "silent (getProp v p)"
  by (simp add: silent_def getProp_def split: jsval.splits jsobject.splits)

lemma silent_bnd: "silent m \<Longrightarrow> (\<And>x. silent (f x)) \<Longrightarrow> silent (bnd m f)"
  unfolding silent_def bnd_def
  by (auto split: prod.splits sum.splits) (metis snd_conv)+

lemma silent_interpolate: "silent m \<Longrightarrow> silent (interpolate m)"
  unfolding interpolate_def by (rule silent_bnd) (simp_all add: silent_def)

lemma silent_template: "list_all silent ps \<Longrightarrow> silent (template ps)"
  by (induction ps) (simp_all add: silent_ret silent_bnd)

lemma silent_templateLiteral: "silent (templateLiteral u s d a)"
  unfolding templateLiteral_def
  by (rule silent_template)
    (simp add: silent_ret silent_getProp silent_bnd silent_interpolate silent_template)

lemma frame_bnd:
  assumes "silent m" "\<And>x. snd (f x w) = w \<or> snd (f x w) = w2"
  shows "snd (bnd m f w) = w \<or> snd (bnd m f w) = w2"
proof (cases "m w")
  case (Pair r w')
  with assms(1) have "w' = w" by (metis silent_def snd_conv)
  with Pair assms(2) show ?thesis
    by (cases r) (simp_all add: bnd_def)
qed

lemma getTemplateLetterJS_frame:
  "snd (getTemplateLetterJS v w) = w \<or> snd (getTemplateLetterJS v w) = withDate w"
proof -
  have d: "\<And>g. bnd (bnd newDate toLocaleDateString) g w = g (localeDate w (clockTime w)) (withDate w)"
    by (simp add: bnd_def [of "bnd newDate toLocaleDateString"] date_step)
  have t: "\<And>u s d a w'. snd (templateLiteral u s d a w') = w'"
    using silent_templateLiteral by (simp add: silent_def)
  show ?thesis
    unfolding getTemplateLetterJS_def
    by (rule frame_bnd [OF silent_getProp])+ (simp add: d t)
qed

lemma step_frame:
  "fresh w \<le> fresh (snd (getTemplateLetterJS v w)) \<and>
   (\<forall>a. a < fresh w \<longrightarrow> objects (snd (getTemplateLetterJS v w)) a = objects w a)"
  using getTemplateLetterJS_frame [of v w] by (auto simp: withDate_def)

lemma step_represents:
  "represents w v data \<Longrightarrow> represents (snd (getTemplateLetterJS v w)) v data"
  using getTemplateLetterJS_frame [of v w] by (auto simp: represents_withDate)

lemma callTimes_fresh: "fresh w \<le> fresh (callTimes n v w)"
proof (induction n arbitrary: w)
  case 0
  show ?case by simp
next
  case (Suc n)
  from step_frame [of w v] Suc [of "snd (getTemplateLetterJS v w)"] show ?case by simp
qed

lemma callTimes_objects: "a < fresh w \<Longrightarrow> objects (callTimes n v w) a = objects w a"
proof (induction n arbitrary: w)
  case 0
  show ?case by simp
next
  case (Suc n)
  from step_frame [of w v] Suc.prems
  have "a < fresh (snd (getTemplateLetterJS v w))"
    "objects (snd (getTemplateLetterJS v w)) a = objects w a"
    by auto
  with Suc.IH [of "snd (getTemplateLetterJS v w)"] show ?case by simp
qed

lemma callTimes_represents: "represents w v data \<Longrightarrow> represents (callTimes n v w) v data"
  by (induction n arbitrary: w) (simp_all add: step_represents)

lemma represents_store:
  assumes "a \<noteq> ua" "a \<noteq> sa" "ua \<noteq> sa" "a < fresh w" "ua < fresh w" "sa < fresh w"
  shows "represents (w\<lparr>objects := store a ua sa data (objects w)\<rparr>) (Ref a) data"
  using assms
  by (simp add: represents_def isRecord_def fieldOf_def store_def letterRecord_def userRecord_def
      subscriptionRecord_def)

lemma represents_requestWorld: "represents (requestWorld data today) (Ref 0) data"
  by (simp add: requestWorld_def represents_def isRecord_def fieldOf_def store_def letterRecord_def
      userRecord_def subscriptionRecord_def)

lemma represents_otherWorld: "represents otherWorld (Ref 7) (janeDoe FIRM)"
  by (simp add: otherWorld_def represents_def isRecord_def fieldOf_def store_def letterRecord_def
      userRecord_def subscriptionRecord_def)

text \<open>
  C6. Two calls in two states of the program, which may differ in where the objects
  lie, in what other objects there are, in the clock and in the environment, on
  arguments that hold the same request, on the same date as the host shows it, return
  the same string, code unit for code unit: the letter for that request and date.
\<close>

theorem template_deterministic:
  "represents w1 v1 data \<and> represents w2 v2 data \<and>
   localeDate w1 (clockTime w1) = date \<and> localeDate w2 (clockTime w2) = date
   \<longrightarrow> fst (getTemplateLetterJS v1 w1) = fst (getTemplateLetterJS v2 w2) \<and>
       fst (getTemplateLetterJS v1 w1) = Inr (getTemplateLetter date data)"
  by (auto simp: getTemplateLetterJS_represents)

theorem template_deterministic_witness:
  "represents (requestWorld (janeDoe FIRM) (lit ''1/1/2024'')) (Ref 0) (janeDoe FIRM) \<and>
   represents otherWorld (Ref 7) (janeDoe FIRM) \<and>
   clockTime (requestWorld (janeDoe FIRM) (lit ''1/1/2024'')) \<noteq> clockTime otherWorld \<and>
   environment (requestWorld (janeDoe FIRM) (lit ''1/1/2024'')) ''API_KEY'' \<noteq>
     environment otherWorld ''API_KEY'' \<and>
   fst (getTemplateLetterJS (Ref 0) (requestWorld (janeDoe FIRM) (lit ''1/1/2024''))) =
   fst (getTemplateLetterJS (Ref 7) otherWorld)"
proof -
  have "localeDate (requestWorld (janeDoe FIRM) (lit ''1/1/2024''))
          (clockTime (requestWorld (janeDoe FIRM) (lit ''1/1/2024''))) = lit ''1/1/2024''"
    "localeDate otherWorld (clockTime otherWorld) = lit ''1/1/2024''"
    "clockTime (requestWorld (janeDoe FIRM) (lit ''1/1/2024'')) \<noteq> clockTime otherWorld"
    "environment (requestWorld (janeDoe FIRM) (lit ''1/1/2024'')) ''API_KEY'' \<noteq>
     environment otherWorld ''API_KEY''"
    by (simp_all add: requestWorld_def otherWorld_def)
  with template_deterministic [of "requestWorld (janeDoe FIRM) (lit ''1/1/2024'')" "Ref 0"
      "janeDoe FIRM" otherWorld "Ref 7" "lit ''1/1/2024''"]
    represents_requestWorld [of "janeDoe FIRM" "lit ''1/1/2024''"] represents_otherWorld
  show ?thesis by simp
qed

text \<open>
  C7. Whenever the argument holds a request the call returns the letter and raises
  nothing, and every request can be so held. Nothing is checked on the way: the full
  name stands at the start and at the end of the letter and the service name at its
  two places, whatever they are, so an empty one leaves nothing in its places and the
  text around them as it is.
\<close>

theorem template_no_exception:
  "(represents w v data \<longrightarrow>
      fst (getTemplateLetterJS v w) = Inr (getTemplateLetter (localeDate w (clockTime w)) data)) \<and>
   represents (requestWorld data date) (Ref 0) data \<and>
   (\<exists>mid. \<forall>n. getTemplateLetter date (data\<lparr>user := (user data)\<lparr>fullName := n\<rparr>\<rparr>) = n @ mid @ n) \<and>
   (\<exists>a b c.
      suffix (lit ''RE: Cancellation of '') a \<and>
      prefix (lit '' Subscription'') b \<and>
      suffix (lit ''To the Customer Service Team at '') b \<and>
      prefix (lit '','') c \<and>
      (\<forall>n. getTemplateLetter date (data\<lparr>subscription := (subscription data)\<lparr>serviceName := n\<rparr>\<rparr>) =
         a @ n @ b @ n @ c))"
proof -
  have 1: "represents w v data \<longrightarrow>
      fst (getTemplateLetterJS v w) = Inr (getTemplateLetter (localeDate w (clockTime w)) data)"
    by (simp add: getTemplateLetterJS_represents)
  have 2: "\<exists>mid. \<forall>n. getTemplateLetter date (data\<lparr>user := (user data)\<lparr>fullName := n\<rparr>\<rparr>) = n @ mid @ n"
    unfolding getTemplateLetter_def
    by (rule exI [of _ "lit ''\<newline>'' @
     orElse (address (user data)) (lit []) @ lit ''\<newline>'' @
     email (user data) @ lit ''\<newline>'' @
     orElse (phone (user data)) (lit []) @ lit ''\<newline>'' @
     lit ''\<newline>'' @
     lit ''Date: '' @ date @ lit ''\<newline>'' @
     lit ''\<newline>'' @
     lit ''RE: Cancellation of '' @ serviceName (subscription data) @ lit '' Subscription\<newline>'' @
     lit ''Account Number: '' @ orElse (accountNumber (subscription data)) (lit ''N/A'') @ lit ''\<newline>'' @
     lit ''\<newline>'' @
     lit ''To the Customer Service Team at '' @ serviceName (subscription data) @ lit '',\<newline>'' @
     lit ''\<newline>'' @
     lit ''I am writing to formally request the cancellation of my '' @
       orElse (subscriptionPlan (subscription data)) (lit []) @ lit '' subscription, effective '' @
       effectiveDate (subscription data) @ lit ''.\<newline>'' @
     lit ''\<newline>'' @
     reasonLine (cancellationReason (subscription data)) @ lit ''\<newline>'' @
     lit ''Please stop all recurring payments associated with this account immediately. '' @
       toneAdjustment (tone data) @ lit ''\<newline>'' @
     lit ''\<newline>'' @
     lit ''Thank you for your prompt attention to this matter.\<newline>'' @
     lit ''\<newline>'' @
     lit ''Sincerely,\<newline>'' @
     lit ''\<newline>''"]) simp
  let ?a = "fullName (user data) @ lit ''\<newline>'' @
     orElse (address (user data)) (lit []) @ lit ''\<newline>'' @
     email (user data) @ lit ''\<newline>'' @
     orElse (phone (user data)) (lit []) @ lit ''\<newline>'' @
     lit ''\<newline>'' @
     lit ''Date: '' @ date @ lit ''\<newline>'' @
     lit ''\<newline>''"
  let ?b = "lit '' Subscription\<newline>'' @
     lit ''Account Number: '' @ orElse (accountNumber (subscription data)) (lit ''N/A'') @ lit ''\<newline>'' @
     lit ''\<newline>'' @
     lit ''To the Customer Service Team at ''"
  let ?c = "lit '',\<newline>'' @
     lit ''\<newline>'' @
     lit ''I am writing to formally request the cancellation of my '' @
       orElse (subscriptionPlan (subscription data)) (lit []) @ lit '' subscription, effective '' @
       effectiveDate (subscription data) @ lit ''.\<newline>'' @
     lit ''\<newline>'' @
     reasonLine (cancellationReason (subscription data)) @ lit ''\<newline>'' @
     lit ''Please stop all recurring payments associated with this account immediately. '' @
       toneAdjustment (tone data) @ lit ''\<newline>'' @
     lit ''\<newline>'' @
     lit ''Thank you for your prompt attention to this matter.\<newline>'' @
     lit ''\<newline>'' @
     lit ''Sincerely,\<newline>'' @
     lit ''\<newline>'' @
     fullName (user data)"
  have a: "suffix (lit ''RE: Cancellation of '') (?a @ lit ''RE: Cancellation of '')"
    by (rule suffixI) simp
  have b1: "prefix (lit '' Subscription'') ?b"
    by (rule prefixI [of _ _ "lit ''\<newline>'' @
     lit ''Account Number: '' @ orElse (accountNumber (subscription data)) (lit ''N/A'') @ lit ''\<newline>'' @
     lit ''\<newline>'' @
     lit ''To the Customer Service Team at ''"]) simp
  have b2: "suffix (lit ''To the Customer Service Team at '') ?b"
    by (rule suffixI [of _ "lit '' Subscription\<newline>'' @
     lit ''Account Number: '' @ orElse (accountNumber (subscription data)) (lit ''N/A'') @ lit ''\<newline>'' @
     lit ''\<newline>''"]) simp
  have c: "prefix (lit '','') ?c"
    by (simp add: prefix_def)
  have e: "\<forall>n. getTemplateLetter date (data\<lparr>subscription := (subscription data)\<lparr>serviceName := n\<rparr>\<rparr>) =
         (?a @ lit ''RE: Cancellation of '') @ n @ ?b @ n @ ?c"
    by (simp add: getTemplateLetter_def)
  from a b1 b2 c e have 3: "\<exists>a b c.
      suffix (lit ''RE: Cancellation of '') a \<and>
      prefix (lit '' Subscription'') b \<and>
      suffix (lit ''To the Customer Service Team at '') b \<and>
      prefix (lit '','') c \<and>
      (\<forall>n. getTemplateLetter date (data\<lparr>subscription := (subscription data)\<lparr>serviceName := n\<rparr>\<rparr>) =
         a @ n @ b @ n @ c)"
    by blast
  from 1 2 3 represents_requestWorld show ?thesis by blast
qed

theorem template_no_exception_witness:
  "represents (requestWorld (emptyRequest (lit ''2024-01-01'')) (lit ''1/1/2024'')) (Ref 0)
     (emptyRequest (lit ''2024-01-01'')) \<and>
   fst (getTemplateLetterJS (Ref 0) (requestWorld (emptyRequest (lit ''2024-01-01'')) (lit ''1/1/2024''))) =
     Inr (lit ''\<newline>\<newline>\<newline>\<newline>\<newline>Date: 1/1/2024\<newline>\<newline>RE: Cancellation of  Subscription\<newline>Account Number: N/A\<newline>\<newline>To the Customer Service Team at ,\<newline>\<newline>I am writing to formally request the cancellation of my  subscription, effective 2024-01-01.\<newline>\<newline>\<newline>Please stop all recurring payments associated with this account immediately. \<newline>\<newline>Thank you for your prompt attention to this matter.\<newline>\<newline>Sincerely,\<newline>\<newline>'')"
proof -
  have l: "localeDate (requestWorld (emptyRequest (lit ''2024-01-01'')) (lit ''1/1/2024''))
     (clockTime (requestWorld (emptyRequest (lit ''2024-01-01'')) (lit ''1/1/2024''))) = lit ''1/1/2024''"
    by (simp add: requestWorld_def)
  have t: "getTemplateLetter (lit ''1/1/2024'') (emptyRequest (lit ''2024-01-01'')) =
     lit ''\<newline>\<newline>\<newline>\<newline>\<newline>Date: 1/1/2024\<newline>\<newline>RE: Cancellation of  Subscription\<newline>Account Number: N/A\<newline>\<newline>To the Customer Service Team at ,\<newline>\<newline>I am writing to formally request the cancellation of my  subscription, effective 2024-01-01.\<newline>\<newline>\<newline>Please stop all recurring payments associated with this account immediately. \<newline>\<newline>Thank you for your prompt attention to this matter.\<newline>\<newline>Sincerely,\<newline>\<newline>''"
    by (simp add: getTemplateLetter_def emptyRequest_def orElse_def reasonLine_def toneAdjustment_def)
  from template_no_exception [of "requestWorld (emptyRequest (lit ''2024-01-01'')) (lit ''1/1/2024'')"
      "Ref 0" "emptyRequest (lit ''2024-01-01'')" "lit ''1/1/2024''"]
  show ?thesis
    unfolding l t by blast
qed

text \<open>
  C8. After any number of calls on the same argument every object that was there
  before the first call is what it was, and the argument holds the same request: what
  the calls add are the date objects they make. This is so for every argument and
  every state, also when the call raises.
\<close>

theorem callTimes_frame:
  "fresh w \<le> fresh (callTimes n v w) \<and>
   (\<forall>a. a < fresh w \<longrightarrow> objects (callTimes n v w) a = objects w a) \<and>
   (represents w v data \<longrightarrow> represents (callTimes n v w) v data)"
  by (simp add: callTimes_fresh callTimes_objects callTimes_represents)

theorem callTimes_frame_witness:
  "list_all (\<lambda>a. objects (callTimes 3 (Ref 0) (requestWorld (janeDoe FIRM) (lit ''1/1/2024''))) a =
                objects (requestWorld (janeDoe FIRM) (lit ''1/1/2024'')) a) [0, 1, 2] \<and>
   represents (callTimes 3 (Ref 0) (requestWorld (janeDoe FIRM) (lit ''1/1/2024''))) (Ref 0)
     (janeDoe FIRM)"
proof -
  have f: "fresh (requestWorld (janeDoe FIRM) (lit ''1/1/2024'')) = 3"
    by (simp add: requestWorld_def)
  from callTimes_frame [of "requestWorld (janeDoe FIRM) (lit ''1/1/2024'')" 3 "Ref 0" "janeDoe FIRM"]
    represents_requestWorld [of "janeDoe FIRM" "lit ''1/1/2024''"]
  show ?thesis
    unfolding f by simp
qed

section \<open>The fallback of the network-backed generator\<close>

text \<open>
  C9. When the key is missing (undefined, empty, or the string \<open>undefined\<close>), when
  the request raises, or when the response has no text or an empty one, the result is
  the template letter for the same request.
\<close>

theorem fallback_on_failure:
  "apiKey = None \<or> apiKey = Some [] \<or> apiKey = Some (lit ''undefined'') \<or>
   (\<exists>k. apiKey = Some k \<and>
      (ai k modelName (letterPrompt data) = Throws \<or>
       ai k modelName (letterPrompt data) = Response None \<or>
       ai k modelName (letterPrompt data) = Response (Some []))) \<Longrightarrow>
   generateCancellationLetter apiKey ai date data = getTemplateLetter date data"
  by (auto simp: generateCancellationLetter_def split: option.splits api_outcome.splits)

theorem fallback_on_failure_witness:
  "generateCancellationLetter None (answeringModel (Some (lit ''Dear Netflix'')))
       (lit ''1/1/2024'') (janeDoe FIRM) = getTemplateLetter (lit ''1/1/2024'') (janeDoe FIRM) \<and>
   generateCancellationLetter (Some (lit ''undefined'')) (answeringModel (Some (lit ''Dear Netflix'')))
       (lit ''1/1/2024'') (janeDoe FIRM) = getTemplateLetter (lit ''1/1/2024'') (janeDoe FIRM) \<and>
   generateCancellationLetter (Some (lit ''key-1'')) raisingModel
       (lit ''1/1/2024'') (janeDoe FIRM) = getTemplateLetter (lit ''1/1/2024'') (janeDoe FIRM) \<and>
   generateCancellationLetter (Some (lit ''key-1'')) (answeringModel None)
       (lit ''1/1/2024'') (janeDoe FIRM) = getTemplateLetter (lit ''1/1/2024'') (janeDoe FIRM) \<and>
   generateCancellationLetter (Some (lit ''key-1'')) (answeringModel (Some []))
       (lit ''1/1/2024'') (janeDoe FIRM) = getTemplateLetter (lit ''1/1/2024'') (janeDoe FIRM)"
  using
    fallback_on_failure [of None "answeringModel (Some (lit ''Dear Netflix''))" "janeDoe FIRM" "lit ''1/1/2024''"]
    fallback_on_failure [of "Some (lit ''undefined'')" "answeringModel (Some (lit ''Dear Netflix''))" "janeDoe FIRM" "lit ''1/1/2024''"]
    fallback_on_failure [of "Some (lit ''key-1'')" raisingModel "janeDoe FIRM" "lit ''1/1/2024''"]
    fallback_on_failure [of "Some (lit ''key-1'')" "answeringModel None" "janeDoe FIRM" "lit ''1/1/2024''"]
    fallback_on_failure [of "Some (lit ''key-1'')" "answeringModel (Some [])" "janeDoe FIRM" "lit ''1/1/2024''"]
  by (simp add: raisingModel_def answeringModel_def)

text \<open>Otherwise the result is the text of the response.\<close>

lemma success_returns_text:
  "k \<noteq> [] \<Longrightarrow> k \<noteq> lit ''undefined'' \<Longrightarrow> t \<noteq> [] \<Longrightarrow> ai k modelName (letterPrompt data) = Response (Some t) \<Longrightarrow>
   generateCancellationLetter (Some k) ai date data = t"
  by (simp add: generateCancellationLetter_def)

section \<open>The suggestion service\<close>

lemma length_defaultReasons: "length defaultReasons = 4"
  by (simp add: defaultReasons_def)

lemma defaultReasons_not_Nil: "defaultReasons \<noteq> []"
  by (simp add: defaultReasons_def)

lemma parseLines_Nil_iff:
  "parseLines txt = [] \<longleftrightarrow> (\<forall>line \<in> set (splitLines txt). trim line = [])"
  by (auto simp: parseLines_def filter_empty_conv)

text \<open>
  What the helpers of the parse do: \<open>trim\<close> removes white space at both ends and
  nothing else, and its result neither begins nor ends with white space; the pieces of
  \<open>split\<close> have no line feed and give the text back when joined by line feeds; the
  replacement removes a leading number with its full stop and the white space after it,
  and leaves a line alone that does not begin with a digit.
\<close>

lemma dropWhile_fixed: "xs = [] \<or> \<not> P (hd xs) \<Longrightarrow> dropWhile P xs = xs"
  by (cases xs) auto

lemma rev_dropWhile_takeWhile:
  "xs = rev (dropWhile P (rev xs)) @ rev (takeWhile P (rev xs))"
  by (metis rev_append rev_rev_ident takeWhile_dropWhile_id)

lemma trim_decomposition:
  "\<exists>a b. s = a @ trim s @ b \<and> list_all isWhiteSpace a \<and> list_all isWhiteSpace b"
proof -
  let ?a = "takeWhile isWhiteSpace s"
  let ?t = "dropWhile isWhiteSpace s"
  let ?b = "rev (takeWhile isWhiteSpace (rev ?t))"
  have t: "?t = trim s @ ?b"
    unfolding trim_def by (rule rev_dropWhile_takeWhile)
  have "s = ?a @ ?t" by simp
  with t have "s = ?a @ trim s @ ?b" by simp
  moreover have "list_all isWhiteSpace ?a"
    unfolding list_all_iff by (metis set_takeWhileD)
  moreover have "list_all isWhiteSpace ?b"
    unfolding list_all_iff by (metis set_rev set_takeWhileD)
  ultimately show ?thesis by blast
qed

lemma trim_ends:
  "trim s = [] \<or> (\<not> isWhiteSpace (hd (trim s)) \<and> \<not> isWhiteSpace (last (trim s)))"
proof (cases "trim s = []")
  case True
  then show ?thesis by simp
next
  case False
  let ?t = "dropWhile isWhiteSpace s"
  let ?u = "dropWhile isWhiteSpace (rev ?t)"
  have tr: "trim s = rev ?u" by (simp add: trim_def)
  with False have u: "?u \<noteq> []" by simp
  then have "\<not> isWhiteSpace (hd ?u)" by (rule hd_dropWhile)
  with u tr have l: "\<not> isWhiteSpace (last (trim s))"
    by (simp add: last_rev)
  have t: "?t \<noteq> []"
  proof
    assume e: "?t = []"
    have "?u = []" unfolding e by simp
    with u show False by simp
  qed
  then have ht: "\<not> isWhiteSpace (hd ?t)" by (rule hd_dropWhile)
  have "?t = trim s @ rev (takeWhile isWhiteSpace (rev ?t))"
    unfolding trim_def by (rule rev_dropWhile_takeWhile)
  with False have "hd ?t = hd (trim s)" by (metis hd_append2)
  with ht l show ?thesis by simp
qed

lemma trim_Nil: "trim [] = []"
  by (simp add: trim_def)

lemma trim_trim: "trim (trim s) = trim s"
proof (cases "trim s = []")
  case True
  then show ?thesis by (simp add: trim_Nil)
next
  case False
  with trim_ends [of s] have e: "\<not> isWhiteSpace (hd (trim s))" "\<not> isWhiteSpace (last (trim s))"
    by simp_all
  from False e(1) have 1: "dropWhile isWhiteSpace (trim s) = trim s"
    by (simp add: dropWhile_fixed)
  from False e(2) have 2: "dropWhile isWhiteSpace (rev (trim s)) = rev (trim s)"
    by (simp add: dropWhile_fixed hd_rev)
  have "trim (trim s) = rev (dropWhile isWhiteSpace (rev (dropWhile isWhiteSpace (trim s))))"
    by (simp add: trim_def)
  also have "\<dots> = trim s" by (simp only: 1 2 rev_rev_ident)
  finally show ?thesis .
qed

lemma splitAcc_join:
  "concat (map (\<lambda>l. 0x0A # l) (splitAcc acc s)) = 0x0A # rev acc @ s"
  by (induction s arbitrary: acc) simp_all

lemma splitLines_join: "concat (map (\<lambda>l. 0x0A # l) (splitLines s)) = 0x0A # s"
  by (simp add: splitLines_def splitAcc_join)

lemma splitAcc_no_break:
  "0x0A \<notin> set acc \<Longrightarrow> l \<in> set (splitAcc acc s) \<Longrightarrow> 0x0A \<notin> set l"
proof (induction s arbitrary: acc)
  case Nil
  then show ?case by auto
next
  case (Cons a s)
  show ?case
  proof (cases "a = 0x0A")
    case True
    with Cons.prems have "l = rev acc \<or> l \<in> set (splitAcc [] s)" by simp
    then show ?thesis using Cons.prems(1) Cons.IH [of "[]"] by auto
  next
    case False
    with Cons.prems have "l \<in> set (splitAcc (a # acc) s)" by simp
    with Cons.IH [of "a # acc"] False Cons.prems(1) show ?thesis by simp
  qed
qed

lemma splitLines_no_break: "l \<in> set (splitLines s) \<Longrightarrow> 0x0A \<notin> set l"
  unfolding splitLines_def by (rule splitAcc_no_break [of "[]"]) simp_all

lemma stripNumbering_numbered:
  assumes "ds \<noteq> []" "list_all isDigit ds" "list_all isWhiteSpace ws"
    "rest = [] \<or> \<not> isWhiteSpace (hd rest)"
  shows "stripNumbering (ds @ [0x2E] @ ws @ rest) = rest"
proof -
  have nd: "\<not> isDigit 0x2E" by (simp add: isDigit_def)
  from assms(2) nd have tw: "takeWhile isDigit (ds @ [0x2E] @ ws @ rest) = ds"
    by (simp add: list_all_iff takeWhile_append2)
  from assms(2) nd have dw: "dropWhile isDigit (ds @ [0x2E] @ ws @ rest) = 0x2E # ws @ rest"
    by (simp add: list_all_iff dropWhile_append2)
  from assms(3,4) have "dropWhile isWhiteSpace (ws @ rest) = rest"
    by (auto simp: list_all_iff dropWhile_append2 dropWhile_fixed)
  with tw dw assms(1) show ?thesis
    by (simp add: stripNumbering_def)
qed

lemma stripNumbering_unnumbered:
  "line = [] \<or> \<not> isDigit (hd line) \<Longrightarrow> stripNumbering line = line"
  by (cases line) (simp_all add: stripNumbering_def)

lemma parsed_lines_trimmed: "\<forall>l \<in> set (parseLines txt). trim l = l"
  by (simp add: parseLines_def trim_trim)

lemma ws_not_digit: "isWhiteSpace c \<Longrightarrow> \<not> isDigit c"
  by (auto simp: isWhiteSpace_def isDigit_def)

lemma trim_Nil_iff: "trim s = [] \<longleftrightarrow> list_all isWhiteSpace s"
proof
  assume "trim s = []"
  with trim_decomposition [of s] show "list_all isWhiteSpace s"
    by (auto simp: list_all_iff)
next
  assume "list_all isWhiteSpace s"
  then show "trim s = []"
    by (auto simp: trim_def list_all_iff dest: set_dropWhileD)
qed

lemma trim_shape:
  assumes "list_all isWhiteSpace a" "list_all isWhiteSpace c" "trimmedText b"
  shows "trim (a @ b @ c) = b"
proof (cases "b = []")
  case True
  with assms(1,2) have "list_all isWhiteSpace (a @ b @ c)" by simp
  with True show ?thesis by (simp add: trim_Nil_iff)
next
  case False
  with assms(3) have e: "\<not> isWhiteSpace (hd b)" "\<not> isWhiteSpace (last b)"
    by (simp_all add: trimmedText_def)
  from assms(1) False e(1) have 1: "dropWhile isWhiteSpace (a @ b @ c) = b @ c"
    by (simp add: list_all_iff dropWhile_append2 dropWhile_fixed)
  from assms(2) have "dropWhile isWhiteSpace (rev c @ rev b) = dropWhile isWhiteSpace (rev b)"
    by (simp add: list_all_iff dropWhile_append)
  also from False e(2) have "\<dots> = rev b"
    by (simp add: dropWhile_fixed hd_rev)
  finally show ?thesis
    by (simp add: trim_def 1)
qed

lemma stripNumbering_unless: "\<not> numberedStart s \<Longrightarrow> stripNumbering s = s"
  by (auto simp: stripNumbering_def numberedStart_def split: list.splits)

lemma numberedStart_trail:
  assumes "trimmedText b" "list_all isWhiteSpace c"
  shows "numberedStart (b @ c) \<longleftrightarrow> numberedStart b"
proof (cases "list_all isDigit b")
  case True
  have c: "dropWhile isDigit c = c"
    using assms(2) by (cases c) (auto dest: ws_not_digit)
  from True have d: "dropWhile isDigit (b @ c) = dropWhile isDigit c" and e: "dropWhile isDigit b = []"
    by (simp_all add: list_all_iff dropWhile_append dropWhile_eq_Nil_conv)
  have np: "\<not> prefix [0x2E] c"
    using assms(2) by (cases c) (auto simp: isWhiteSpace_def)
  have "\<not> numberedStart b"
    unfolding numberedStart_def e by simp
  moreover have "\<not> numberedStart (b @ c)"
    unfolding numberedStart_def d c using np by simp
  ultimately show ?thesis by simp
next
  case False
  then obtain x where x: "x \<in> set b" "\<not> isDigit x" by (auto simp: list_all_iff)
  then have "takeWhile isDigit (b @ c) = takeWhile isDigit b"
    "dropWhile isDigit (b @ c) = dropWhile isDigit b @ c" "dropWhile isDigit b \<noteq> []"
    by (auto simp: takeWhile_append1 dropWhile_append1 dropWhile_eq_Nil_conv)
  then show ?thesis
    by (cases "dropWhile isDigit b") (simp_all add: numberedStart_def)
qed


lemma joinLines_Cons2: "joinLines (p # q # ps) = p @ 0x0A # joinLines (q # ps)"
  by simp

lemma splitAcc_piece:
  "0x0A \<notin> set l \<Longrightarrow> splitAcc acc (l @ 0x0A # r) = (rev acc @ l) # splitAcc [] r"
  by (induction l arbitrary: acc) auto

lemma splitAcc_last: "0x0A \<notin> set l \<Longrightarrow> splitAcc acc l = [rev acc @ l]"
  by (induction l arbitrary: acc) auto

lemma splitLines_joinLines:
  "\<forall>l \<in> set (p # ps). 0x0A \<notin> set l \<Longrightarrow> splitLines (joinLines (p # ps)) = p # ps"
proof (induction ps arbitrary: p)
  case Nil
  then show ?case by (simp add: splitLines_def splitAcc_last)
next
  case (Cons q ps)
  from Cons.prems have "splitLines (joinLines (q # ps)) = q # ps"
    by (intro Cons.IH) simp
  with Cons.prems show ?case
    unfolding joinLines_Cons2 splitLines_def by (simp add: splitAcc_piece)
qed

lemma splitAcc_not_Nil: "splitAcc acc s \<noteq> []"
  by (induction s arbitrary: acc) simp_all

lemma joinLines_splitLines: "joinLines (splitLines t) = t"
proof -
  have "splitLines t \<noteq> []"
    by (simp add: splitLines_def splitAcc_not_Nil)
  then obtain p ps where e: "splitLines t = p # ps" by (cases "splitLines t") auto
  with splitLines_join [of t] show ?thesis by simp
qed

lemma render_no_break: "wellFormed x \<Longrightarrow> 0x0A \<notin> set (render x)"
  by (cases x) (auto simp: list_all_iff isDigit_def)

lemma render_blank: "wellFormed x \<Longrightarrow> trim (render x) = [] \<longleftrightarrow> blankLine x"
proof (cases x)
  case (Numbered ds gap body trail)
  assume "wellFormed x"
  with Numbered have "ds \<noteq> []" "list_all isDigit ds" by simp_all
  then have "\<not> list_all isWhiteSpace ds"
    by (cases ds) (auto dest: ws_not_digit)
  with Numbered show ?thesis by (simp add: trim_Nil_iff)
next
  case (Plain indent body trail)
  assume "wellFormed x"
  with Plain have w: "list_all isWhiteSpace indent" "list_all isWhiteSpace trail" "trimmedText body"
    by simp_all
  from w(3) have "list_all isWhiteSpace body \<longleftrightarrow> body = []"
    by (cases body) (auto simp: trimmedText_def)
  with w(1,2) Plain show ?thesis by (simp add: trim_Nil_iff)
qed

lemma render_entry: "wellFormed x \<Longrightarrow> trim (stripNumbering (render x)) = entry x"
proof (cases x)
  case (Numbered ds gap body trail)
  assume "wellFormed x"
  with Numbered have w: "ds \<noteq> []" "list_all isDigit ds" "list_all isWhiteSpace gap"
    "list_all isWhiteSpace trail" "trimmedText body"
    by simp_all
  show ?thesis
  proof (cases "body = []")
    case True
    from w(1,2) have "stripNumbering (ds @ [0x2E] @ (gap @ trail) @ []) = []"
      by (rule stripNumbering_numbered) (use w(3,4) in simp_all)
    with True Numbered show ?thesis by (simp add: trim_Nil)
  next
    case False
    with w(5) have "\<not> isWhiteSpace (hd body)" by (simp add: trimmedText_def)
    with False have "body @ trail = [] \<or> \<not> isWhiteSpace (hd (body @ trail))" by simp
    with w(1-3) have "stripNumbering (ds @ [0x2E] @ gap @ body @ trail) = body @ trail"
      by (rule stripNumbering_numbered)
    moreover have "trim ([] @ body @ trail) = body"
      by (rule trim_shape) (use w(4,5) in simp_all)
    ultimately show ?thesis using Numbered by simp
  qed
next
  case (Plain indent body trail)
  assume "wellFormed x"
  with Plain have w: "list_all isWhiteSpace indent" "list_all isWhiteSpace trail" "trimmedText body"
    "indent = [] \<longrightarrow> \<not> numberedStart body"
    by simp_all
  have "\<not> numberedStart (indent @ body @ trail)"
  proof (cases indent)
    case Nil
    with w(4) numberedStart_trail [OF w(3) w(2)] show ?thesis by simp
  next
    case (Cons c cs)
    with w(1) have "\<not> isDigit c" by (auto dest: ws_not_digit)
    with Cons show ?thesis by (simp add: numberedStart_def)
  qed
  then have "stripNumbering (indent @ body @ trail) = indent @ body @ trail"
    by (rule stripNumbering_unless)
  with trim_shape [OF w(1) w(2) w(3)] Plain show ?thesis by simp
qed

lemma parseLines_shapes:
  assumes "list_all wellFormed ls" "ls \<noteq> []"
  shows "parseLines (joinLines (map render ls)) = map entry (filter (\<lambda>l. \<not> blankLine l) ls)"
proof -
  from assms(2) obtain x xs where ls: "ls = x # xs" by (cases ls) auto
  from assms(1) have "\<forall>l \<in> set (render x # map render xs). 0x0A \<notin> set l"
    unfolding ls by (auto simp: list_all_iff render_no_break)
  then have "splitLines (joinLines (render x # map render xs)) = render x # map render xs"
    by (rule splitLines_joinLines)
  then have sp: "splitLines (joinLines (map render ls)) = map render ls"
    by (simp add: ls)
  have f: "filter (\<lambda>line. length (trim line) > 0) (map render ls) =
        map render (filter (\<lambda>l. \<not> blankLine l) ls)"
    using assms(1) by (induction ls) (simp_all add: render_blank)
  have m: "map (\<lambda>line. trim (stripNumbering line)) (map render (filter (\<lambda>l. \<not> blankLine l) ls)) =
        map entry (filter (\<lambda>l. \<not> blankLine l) ls)"
    using assms(1) by (induction ls) (simp_all add: render_entry)
  show ?thesis
    unfolding parseLines_def sp f m ..
qed

lemma parseLines_Nil_white: "parseLines t = [] \<longleftrightarrow> list_all isWhiteSpace t"
proof -
  have s: "insert 0x0A (set t) = insert 0x0A (\<Union>l \<in> set (splitLines t). set l)"
  proof -
    have "set (concat (map (\<lambda>l. 0x0A # l) (splitLines t))) = set (0x0A # t)"
      by (simp only: splitLines_join)
    moreover have "splitLines t \<noteq> []"
      by (simp add: splitLines_def splitAcc_not_Nil)
    ultimately show ?thesis by auto
  qed
  have w: "isWhiteSpace 0x0A" by (simp add: isWhiteSpace_def)
  have "parseLines t = [] \<longleftrightarrow> (\<forall>l \<in> set (splitLines t). \<forall>c \<in> set l. isWhiteSpace c)"
    by (simp add: parseLines_Nil_iff trim_Nil_iff list_all_iff)
  also have "\<dots> \<longleftrightarrow> (\<forall>c \<in> insert 0x0A (\<Union>l \<in> set (splitLines t). set l). isWhiteSpace c)"
    using w by auto
  also have "\<dots> \<longleftrightarrow> (\<forall>c \<in> insert 0x0A (set t). isWhiteSpace c)"
    by (simp only: s)
  also have "\<dots> \<longleftrightarrow> list_all isWhiteSpace t"
    using w by (auto simp: list_all_iff)
  finally show ?thesis .
qed

lemma line_shape:
  assumes "0x0A \<notin> set l"
  shows "\<exists>x. wellFormed x \<and> render x = l"
proof (cases "numberedStart l")
  case True
  then have ds: "takeWhile isDigit l \<noteq> []" and "prefix [0x2E] (dropWhile isDigit l)"
    by (simp_all add: numberedStart_def)
  then obtain rest where r: "dropWhile isDigit l = 0x2E # rest"
    by (auto simp: prefix_def)
  obtain a b where ab: "rest = a @ trim rest @ b" "list_all isWhiteSpace a" "list_all isWhiteSpace b"
    using trim_decomposition [of rest] by blast
  have l: "l = takeWhile isDigit l @ [0x2E] @ a @ trim rest @ b"
    using takeWhile_dropWhile_id [of isDigit l] r ab(1) by simp
  have "set rest \<subseteq> set l"
    using set_dropWhileD [of _ isDigit l] r by auto
  with assms ab(1) have nb: "0x0A \<notin> set (a @ trim rest @ b)" by auto
  have dg: "list_all isDigit (takeWhile isDigit l)"
    unfolding list_all_iff by (metis set_takeWhileD)
  have "wellFormed (Numbered (takeWhile isDigit l) a (trim rest) b)"
    using ds dg ab(2,3) nb trim_ends [of rest] by (simp add: trimmedText_def)
  moreover have "render (Numbered (takeWhile isDigit l) a (trim rest) b) = l"
    using l by simp
  ultimately show ?thesis by blast
next
  case False
  obtain a b where ab: "l = a @ trim l @ b" "list_all isWhiteSpace a" "list_all isWhiteSpace b"
    using trim_decomposition [of l] by blast
  have tt: "trimmedText (trim l)"
    using trim_ends [of l] by (simp add: trimmedText_def)
  have "a = [] \<longrightarrow> \<not> numberedStart (trim l)"
  proof
    assume "a = []"
    with ab(1) have "l = trim l @ b" by simp
    with False numberedStart_trail [OF tt ab(3)] show "\<not> numberedStart (trim l)" by simp
  qed
  moreover from assms ab(1) have "0x0A \<notin> set (a @ trim l @ b)" by simp
  ultimately have "wellFormed (Plain a (trim l) b)"
    using ab(2,3) tt by simp
  moreover have "render (Plain a (trim l) b) = l"
    using ab(1) by simp
  ultimately show ?thesis by blast
qed

lemma shapes_of_lines:
  "\<forall>l \<in> set ps. 0x0A \<notin> set l \<Longrightarrow> \<exists>ls. list_all wellFormed ls \<and> map render ls = ps"
proof (induction ps)
  case Nil
  then show ?case by simp
next
  case (Cons p ps)
  then obtain ls where "list_all wellFormed ls" "map render ls = ps" by auto
  moreover from Cons.prems obtain x where "wellFormed x" "render x = p"
    using line_shape [of p] by auto
  ultimately have "list_all wellFormed (x # ls) \<and> map render (x # ls) = p # ps" by simp
  then show ?case by (rule exI [of _ "x # ls"])
qed

lemma text_shapes: "\<exists>ls. list_all wellFormed ls \<and> t = joinLines (map render ls)"
proof -
  have "\<forall>l \<in> set (splitLines t). 0x0A \<notin> set l"
    by (simp add: splitLines_no_break)
  then obtain ls where "list_all wellFormed ls" "map render ls = splitLines t"
    using shapes_of_lines by blast
  then show ?thesis by (auto simp: joinLines_splitLines)
qed

text \<open>
  C10 (as amended). The result has between one and four entries. It is the list of the
  four default reasons, in their order, when the key is missing, when the request
  raises, when the response has no text, and when the text has nothing but white space.
  When the text is made of the lines \<open>ls\<close> and not all of them are blank, the result is
  the first four, or fewer, of the entries of the lines that are not blank. The entry
  of a line is its body: a numbered line loses its numbering, the gap and the trailing
  white space; a plain line loses its indentation and the trailing white space, and
  keeps a numbering that stands behind an indentation. Every text is made of such lines.
\<close>

theorem suggest_result:
  "1 \<le> length (suggestCancellationReason apiKey ai name) \<and>
   length (suggestCancellationReason apiKey ai name) \<le> 4 \<and>
   (apiKey = None \<or> apiKey = Some [] \<or> apiKey = Some (lit ''undefined'') \<or>
    (\<exists>k. apiKey = Some k \<and> ai k modelName (suggestPrompt name) = Throws) \<or>
    (\<exists>k. apiKey = Some k \<and> ai k modelName (suggestPrompt name) = Response None) \<or>
    (\<exists>k t. apiKey = Some k \<and> ai k modelName (suggestPrompt name) = Response (Some t) \<and>
       list_all isWhiteSpace t)
    \<longrightarrow> suggestCancellationReason apiKey ai name =
          [lit ''Cost is too high'', lit ''No longer using the service'',
           lit ''Found a better alternative'', lit ''Moving to a different location'']) \<and>
   (\<forall>k ls. apiKey = Some k \<and> k \<noteq> [] \<and> k \<noteq> lit ''undefined'' \<and>
      ai k modelName (suggestPrompt name) = Response (Some (joinLines (map render ls))) \<and>
      list_all wellFormed ls \<and> \<not> list_all blankLine ls
    \<longrightarrow> suggestCancellationReason apiKey ai name =
          take 4 (map entry (filter (\<lambda>l. \<not> blankLine l) ls))) \<and>
   (\<forall>t. \<exists>ls. list_all wellFormed ls \<and> t = joinLines (map render ls))"
proof -
  let ?res = "suggestCancellationReason apiKey ai name"
  let ?dflt = "[lit ''Cost is too high'', lit ''No longer using the service'',
           lit ''Found a better alternative'', lit ''Moving to a different location'']"
  have len: "1 \<le> length ?res \<and> length ?res \<le> 4"
    by (auto simp: suggestCancellationReason_def Let_def length_defaultReasons Suc_le_eq
        defaultReasons_not_Nil
        split: option.splits api_outcome.splits)
  have none: "parseLines (responseText None) = []"
    by (simp add: responseText_def parseLines_Nil_white)
  have some: "\<And>t. parseLines (responseText (Some t)) = parseLines t"
    by (simp add: responseText_def orElse_def)
  have white: "\<And>t. list_all isWhiteSpace t \<Longrightarrow> parseLines t = []"
    by (simp add: parseLines_Nil_white)
  have d: "defaultReasons = ?dflt"
    unfolding defaultReasons_def ..
  have dflt: "apiKey = None \<or> apiKey = Some [] \<or> apiKey = Some (lit ''undefined'') \<or>
    (\<exists>k. apiKey = Some k \<and> ai k modelName (suggestPrompt name) = Throws) \<or>
    (\<exists>k. apiKey = Some k \<and> ai k modelName (suggestPrompt name) = Response None) \<or>
    (\<exists>k t. apiKey = Some k \<and> ai k modelName (suggestPrompt name) = Response (Some t) \<and>
       list_all isWhiteSpace t)
    \<Longrightarrow> ?res = defaultReasons"
    by (auto simp: suggestCancellationReason_def Let_def none some white
        split: option.splits api_outcome.splits)
  have parsed: "\<And>k ls. apiKey = Some k \<Longrightarrow> k \<noteq> [] \<Longrightarrow> k \<noteq> lit ''undefined'' \<Longrightarrow>
      ai k modelName (suggestPrompt name) = Response (Some (joinLines (map render ls))) \<Longrightarrow>
      list_all wellFormed ls \<Longrightarrow> \<not> list_all blankLine ls \<Longrightarrow>
      ?res = take 4 (map entry (filter (\<lambda>l. \<not> blankLine l) ls))"
  proof -
    fix k ls
    assume a: "apiKey = Some k" "k \<noteq> []" "k \<noteq> lit ''undefined''"
      "ai k modelName (suggestPrompt name) = Response (Some (joinLines (map render ls)))"
      "list_all wellFormed ls" "\<not> list_all blankLine ls"
    from a(6) have ne: "ls \<noteq> []" by auto
    from a(6) have f: "filter (\<lambda>l. \<not> blankLine l) ls \<noteq> []"
      by (simp add: filter_empty_conv list_all_iff)
    have p: "parseLines (responseText (Some (joinLines (map render ls)))) =
        map entry (filter (\<lambda>l. \<not> blankLine l) ls)"
      unfolding some using a(5) ne by (rule parseLines_shapes)
    with f a(1-4) show "?res = take 4 (map entry (filter (\<lambda>l. \<not> blankLine l) ls))"
      by (simp add: suggestCancellationReason_def Let_def)
  qed
  from len dflt [unfolded d] parsed text_shapes show ?thesis by blast
qed

theorem suggest_result_witness:
  "suggestCancellationReason (Some (lit ''key-1''))
     (answeringModel (Some (lit ''1. Too pricey\<newline>\<newline>22.  Unused \<newline>Other'')))
     (lit ''Netflix'') = [lit ''Too pricey'', lit ''Unused'', lit ''Other''] \<and>
   suggestCancellationReason (Some (lit ''key-1'')) raisingModel (lit ''Netflix'') =
     [lit ''Cost is too high'', lit ''No longer using the service'',
      lit ''Found a better alternative'', lit ''Moving to a different location'']"
proof -
  let ?ls = "[Numbered (lit ''1'') (lit '' '') (lit ''Too pricey'') [],
              Plain [] [] [],
              Numbered (lit ''22'') (lit ''  '') (lit ''Unused'') (lit '' ''),
              Plain [] (lit ''Other'') []]"
  have w: "list_all wellFormed ?ls"
    by (simp add: trimmedText_def numberedStart_def isWhiteSpace_def isDigit_def)
  have 1: "suggestCancellationReason (Some (lit ''key-1''))
     (answeringModel (Some (lit ''1. Too pricey\<newline>\<newline>22.  Unused \<newline>Other'')))
     (lit ''Netflix'') = [lit ''Too pricey'', lit ''Unused'', lit ''Other'']"
    using suggest_result [of "Some (lit ''key-1'')"
        "answeringModel (Some (lit ''1. Too pricey\<newline>\<newline>22.  Unused \<newline>Other''))" "lit ''Netflix''",
        THEN conjunct2, THEN conjunct2, THEN conjunct2, THEN conjunct1, rule_format,
        of "lit ''key-1''" ?ls] w
    by (simp add: answeringModel_def)
  have 2: "suggestCancellationReason (Some (lit ''key-1'')) raisingModel (lit ''Netflix'') =
     [lit ''Cost is too high'', lit ''No longer using the service'',
      lit ''Found a better alternative'', lit ''Moving to a different location'']"
    using suggest_result [of "Some (lit ''key-1'')" raisingModel "lit ''Netflix''"]
    by (simp add: raisingModel_def)
  from 1 2 show ?thesis by simp
qed

text \<open>
  C10 as the specification states it fails for a list whose lines are indented: the
  replacement runs before the trim and is anchored at the start of the line, so the
  numbering behind the indentation stays, and the entries begin with their numbers.
\<close>

theorem suggest_counterexample:
  "suggestCancellationReason (Some (lit ''key-1''))
     (answeringModel (Some (lit ''  1. Cost\<newline>  2. Unused''))) (lit ''Netflix'') =
     [lit ''1. Cost'', lit ''2. Unused''] \<and>
   list_all numberedStart [lit ''1. Cost'', lit ''2. Unused'']"
proof -
  have sl: "splitLines (lit ''  1. Cost\<newline>  2. Unused'') = [lit ''  1. Cost'', lit ''  2. Unused'']"
    by (simp add: splitLines_def)
  have tr: "trim (lit ''  1. Cost'') = lit ''1. Cost''" "trim (lit ''  2. Unused'') = lit ''2. Unused''"
    by (simp_all add: trim_def isWhiteSpace_def)
  have st: "stripNumbering (lit ''  1. Cost'') = lit ''  1. Cost''"
    "stripNumbering (lit ''  2. Unused'') = lit ''  2. Unused''"
    by (simp_all add: stripNumbering_def isWhiteSpace_def isDigit_def)
  have ns: "list_all numberedStart [lit ''1. Cost'', lit ''2. Unused'']"
    by (simp add: numberedStart_def isDigit_def)
  have "suggestCancellationReason (Some (lit ''key-1''))
     (answeringModel (Some (lit ''  1. Cost\<newline>  2. Unused''))) (lit ''Netflix'') =
     [lit ''1. Cost'', lit ''2. Unused'']"
    by (simp add: suggestCancellationReason_def answeringModel_def responseText_def orElse_def
        parseLines_def sl [simplified] tr [simplified] st [simplified])
  with ns show ?thesis by simp
qed

text \<open>A line that is only a numbering is not blank, and gives an empty entry.\<close>

lemma numbering_only_line:
  "suggestCancellationReason (Some (lit ''key-1''))
     (answeringModel (Some (lit ''1. ''))) (lit ''Netflix'') = [[]]"
proof -
  have sl: "splitLines (lit ''1. '') = [lit ''1. '']"
    by (simp add: splitLines_def)
  have tr: "trim (lit ''1. '') = lit ''1.''" "trim [] = []"
    by (simp_all add: trim_def isWhiteSpace_def)
  have st: "stripNumbering (lit ''1. '') = []"
    by (simp add: stripNumbering_def isWhiteSpace_def isDigit_def)
  show ?thesis
    by (simp add: suggestCancellationReason_def answeringModel_def responseText_def orElse_def
        parseLines_def sl [simplified] tr [simplified] st [simplified])
qed

section \<open>Counting the places where a text starts\<close>

text \<open>
  Occurrences add up over a concatenation when no occurrence can start in the first
  part and end in the second.
\<close>

lemma occ_append:
  assumes "\<not> straddles n b"
  shows "occurrences n (a @ b) = occurrences n a + occurrences n b"
proof (induction a)
  case Nil
  show ?case by simp
next
  case (Cons x a)
  have "prefix n (x # a @ b) \<longleftrightarrow> prefix n (x # a)"
  proof
    assume p: "prefix n (x # a @ b)"
    then have "prefix n ((x # a) @ b)" by simp
    then consider "prefix n (x # a)" | us where "n = (x # a) @ us" "prefix us b"
      unfolding prefix_append by blast
    then show "prefix n (x # a)"
    proof cases
      case 1 then show ?thesis .
    next
      case 2
      show ?thesis
      proof (cases "us = []")
        case True with 2 show ?thesis by simp
      next
        case False
        from 2 have "suffix us (tl n)" by (simp add: suffix_def)
        then have "us \<in> set (suffixes (tl n))" by (simp add: in_set_suffixes)
        with False 2 have "straddles n b" unfolding straddles_def list_ex_iff by blast
        with assms show ?thesis by simp
      qed
    qed
  next
    assume "prefix n (x # a)"
    then show "prefix n (x # a @ b)" by (metis append_Cons prefix_prefix)
  qed
  with Cons show ?case by simp
qed

lemma occ_zero_iff: "n \<noteq> [] \<Longrightarrow> occurrences n s = 0 \<longleftrightarrow> \<not> sublist n s"
  by (induction s) (auto simp: sublist_Cons_right)

lemma label_chars: "reasonLabel = [82, 101, 97, 115, 111, 110, 32, 102, 111, 114, 32, 99, 97, 110, 99, 101, 108, 108, 97, 116, 105, 111, 110, 58]"
  by (simp add: reasonLabel_def)

lemma occ_field:
  "\<not> straddles reasonLabel b \<Longrightarrow> occurrences reasonLabel f = 0 \<Longrightarrow>
   occurrences reasonLabel (f @ b) = occurrences reasonLabel b"
  by (simp add: occ_append)

lemma occ_label_skip: "c \<noteq> 82 \<Longrightarrow> occurrences reasonLabel (c # xs) = occurrences reasonLabel xs"
  by (simp add: label_chars)

lemma occ_label_R:
  "d \<noteq> 101 \<Longrightarrow> occurrences reasonLabel (82 # d # xs) = occurrences reasonLabel (d # xs)"
  by (simp add: label_chars)

lemma no_straddle_char:
  "c \<notin> set (tl reasonLabel) \<Longrightarrow> \<not> straddles reasonLabel (c # xs)"
  by (auto simp: straddles_def list_ex_iff in_set_suffixes suffix_def prefix_def
      Cons_eq_append_conv)

lemma no_straddle_space:
  "d \<noteq> 102 \<Longrightarrow> d \<noteq> 99 \<Longrightarrow> \<not> straddles reasonLabel (32 # d # xs)"
  by (simp add: straddles_def label_chars)

lemma set_tl_label:
  "set (tl reasonLabel) = {101, 97, 115, 111, 110, 32, 102, 114, 99, 108, 116, 105, 58}"
  by (auto simp: label_chars)

lemma occ_top:
  assumes "\<forall>f \<in> set (otherFields date data). \<not> sublist reasonLabel f"
  shows "occurrences reasonLabel
     (fullName (user data) @ lit ''\<newline>'' @
     orElse (address (user data)) (lit []) @ lit ''\<newline>'' @
     email (user data) @ lit ''\<newline>'' @
     orElse (phone (user data)) (lit []) @ lit ''\<newline>'' @
     lit ''\<newline>'' @
     lit ''Date: '' @ date @ lit ''\<newline>'' @
     lit ''\<newline>'' @
     lit ''RE: Cancellation of '' @ serviceName (subscription data) @ lit '' Subscription\<newline>'' @
     lit ''Account Number: '' @ orElse (accountNumber (subscription data)) (lit ''N/A'') @ lit ''\<newline>'' @
     lit ''\<newline>'' @
     lit ''To the Customer Service Team at '' @ serviceName (subscription data) @ lit '',\<newline>'' @
     lit ''\<newline>'' @
     lit ''I am writing to formally request the cancellation of my '' @
       orElse (subscriptionPlan (subscription data)) (lit []) @ lit '' subscription, effective '' @
       effectiveDate (subscription data) @ lit ''.\<newline>'' @
     lit ''\<newline>'' @ rest) = occurrences reasonLabel rest"
proof -
  have ne: "reasonLabel \<noteq> []" by (simp add: reasonLabel_def)
  from assms have z: "occurrences reasonLabel (fullName (user data)) = 0"
    "occurrences reasonLabel (address (user data)) = 0"
    "occurrences reasonLabel (email (user data)) = 0"
    "occurrences reasonLabel (phone (user data)) = 0"
    "occurrences reasonLabel date = 0"
    "occurrences reasonLabel (serviceName (subscription data)) = 0"
    "occurrences reasonLabel (accountNumber (subscription data)) = 0"
    "occurrences reasonLabel (subscriptionPlan (subscription data)) = 0"
    "occurrences reasonLabel (effectiveDate (subscription data)) = 0"
    by (simp_all add: occ_zero_iff [OF ne] otherFields_def)
  have acct: "occurrences reasonLabel (orElse (accountNumber (subscription data)) (lit ''N/A'')) = 0"
    using z by (simp add: orElse_def label_chars)
  show ?thesis
    using z acct
    by (simp add: occ_field occ_label_skip occ_label_R no_straddle_char no_straddle_space
        set_tl_label del: occurrences.simps(2))
qed


lemma occ_label_hit:
  "occurrences reasonLabel (lit ''Reason for cancellation: '' @ xs) = 1 + occurrences reasonLabel xs"
  by (simp add: label_chars)

lemma occ_bottom:
  assumes "occurrences reasonLabel nm = 0"
  shows "occurrences reasonLabel
     (lit ''\<newline>'' @
      lit ''Please stop all recurring payments associated with this account immediately. '' @
       toneAdjustment t @ lit ''\<newline>'' @
     lit ''\<newline>'' @
     lit ''Thank you for your prompt attention to this matter.\<newline>'' @
     lit ''\<newline>'' @
     lit ''Sincerely,\<newline>'' @
     lit ''\<newline>'' @
     nm) = 0"
  using assms
  by (cases t) (simp_all add: toneAdjustment_def occ_label_skip del: occurrences.simps(2))

lemma occ_letter:
  assumes "\<forall>f \<in> set (otherFields date data). \<not> sublist reasonLabel f"
  shows "occurrences reasonLabel (getTemplateLetter date data) =
     (if cancellationReason (subscription data) = [] then 0
      else 1 + occurrences reasonLabel (cancellationReason (subscription data)))"
proof -
  have ne: "reasonLabel \<noteq> []" by (simp add: reasonLabel_def)
  from assms have nm: "occurrences reasonLabel (fullName (user data)) = 0"
    by (simp add: occ_zero_iff [OF ne] otherFields_def)
  note bottom = occ_bottom [OF nm, of "tone data"]
  have ns: "\<not> straddles reasonLabel (lit ''\<newline>'' @ xs)" for xs
    by (simp add: no_straddle_char set_tl_label)
  have "occurrences reasonLabel (getTemplateLetter date data) =
     occurrences reasonLabel (reasonLine (cancellationReason (subscription data)) @ lit ''\<newline>'' @
      lit ''Please stop all recurring payments associated with this account immediately. '' @
       toneAdjustment (tone data) @ lit ''\<newline>'' @
     lit ''\<newline>'' @
     lit ''Thank you for your prompt attention to this matter.\<newline>'' @
     lit ''\<newline>'' @
     lit ''Sincerely,\<newline>'' @
     lit ''\<newline>'' @
     fullName (user data))"
    unfolding getTemplateLetter_def by (rule occ_top [OF assms])
  also have "\<dots> = (if cancellationReason (subscription data) = [] then 0
      else 1 + occurrences reasonLabel (cancellationReason (subscription data)))"
  proof (cases "cancellationReason (subscription data) = []")
    case True
    with bottom show ?thesis by (simp add: reasonLine_def)
  next
    case False
    have "occurrences reasonLabel (reasonLine (cancellationReason (subscription data)) @ lit ''\<newline>'' @
      lit ''Please stop all recurring payments associated with this account immediately. '' @
       toneAdjustment (tone data) @ lit ''\<newline>'' @
     lit ''\<newline>'' @
     lit ''Thank you for your prompt attention to this matter.\<newline>'' @
     lit ''\<newline>'' @
     lit ''Sincerely,\<newline>'' @
     lit ''\<newline>'' @
     fullName (user data)) = 1 + occurrences reasonLabel (cancellationReason (subscription data) @ lit ''\<newline>'' @ lit ''\<newline>'' @
      lit ''Please stop all recurring payments associated with this account immediately. '' @
       toneAdjustment (tone data) @ lit ''\<newline>'' @
     lit ''\<newline>'' @
     lit ''Thank you for your prompt attention to this matter.\<newline>'' @
     lit ''\<newline>'' @
     lit ''Sincerely,\<newline>'' @
     lit ''\<newline>'' @
     fullName (user data))"
      using False by (simp only: reasonLine_def not_False_eq_True if_True append_assoc occ_label_hit)
    also have "\<dots> = 1 + (occurrences reasonLabel (cancellationReason (subscription data)) +
       occurrences reasonLabel (lit ''\<newline>'' @ lit ''\<newline>'' @
      lit ''Please stop all recurring payments associated with this account immediately. '' @
       toneAdjustment (tone data) @ lit ''\<newline>'' @
     lit ''\<newline>'' @
     lit ''Thank you for your prompt attention to this matter.\<newline>'' @
     lit ''\<newline>'' @
     lit ''Sincerely,\<newline>'' @
     lit ''\<newline>'' @
     fullName (user data)))"
      by (simp only: occ_append [OF ns])
    also have "\<dots> = 1 + occurrences reasonLabel (cancellationReason (subscription data))"
      using bottom by (simp add: occ_label_skip del: occurrences.simps(2))
    finally show ?thesis using False by simp
  qed
  finally show ?thesis .
qed

lemma occ_twice:
  assumes "n \<noteq> []" "prefix n s" "sublist (c # n) s"
  shows "2 \<le> occurrences n s"
proof -
  from assms(3) obtain ps ss where s: "s = ps @ (c # n) @ ss"
    by (auto simp: sublist_def)
  then obtain x s' where xs: "s = x # s'" and sub: "sublist n s'"
  proof (cases ps)
    case Nil
    with s have "s = c # (n @ ss)" by simp
    moreover have "sublist n (n @ ss)" by simp
    ultimately show ?thesis using that by blast
  next
    case (Cons p ps')
    with s have "s = p # (ps' @ [c]) @ n @ ss" by simp
    moreover have "sublist n ((ps' @ [c]) @ n @ ss)" by (rule sublist_appendI)
    ultimately show ?thesis using that by blast
  qed
  from sub assms(1) have "occurrences n s' \<noteq> 0"
    by (simp add: occ_zero_iff)
  with xs assms(2) show ?thesis by simp
qed

section \<open>The reason line\<close>

lemma letter_around_reason:
  "getTemplateLetter date (data\<lparr>subscription := (subscription data)\<lparr>cancellationReason := r\<rparr>\<rparr>) =
     (fullName (user data) @ lit ''\<newline>'' @ address (user data) @ lit ''\<newline>'' @
      email (user data) @ lit ''\<newline>'' @ phone (user data) @ lit ''\<newline>\<newline>Date: '' @ date @
      lit ''\<newline>\<newline>RE: Cancellation of '' @ serviceName (subscription data) @
      lit '' Subscription\<newline>Account Number: '' @
      orElse (accountNumber (subscription data)) (lit ''N/A'') @
      lit ''\<newline>\<newline>To the Customer Service Team at '' @ serviceName (subscription data) @
      lit '',\<newline>\<newline>I am writing to formally request the cancellation of my '' @
      subscriptionPlan (subscription data) @ lit '' subscription, effective '' @
      effectiveDate (subscription data) @ lit ''.\<newline>\<newline>'') @
     reasonLine r @
     (lit ''\<newline>Please stop all recurring payments associated with this account immediately. '' @
      toneAdjustment (tone data) @
      lit ''\<newline>\<newline>Thank you for your prompt attention to this matter.\<newline>\<newline>Sincerely,\<newline>\<newline>'' @
      fullName (user data))"
  by (simp add: getTemplateLetter_def)

text \<open>
  C2 (as amended). Let no other interpolated value, that is the full name, the address,
  the email, the phone, the date, the service name, the account number, the plan and
  the effective date, contain the text \<open>Reason for cancellation:\<close>. With an empty
  reason that text occurs nowhere in the letter. With a non-empty reason the letter
  contains the line \<open>Reason for cancellation: \<close> followed by the reason, and the
  text occurs once more than it occurs in the reason itself: exactly once when the
  reason does not contain it. With or without that condition, the template puts at one
  fixed place either that line with its line break or nothing at all, and the rest of
  the letter does not depend on the reason: with an empty reason no empty line stands
  in for the line.
\<close>

theorem reasonLine_once:
  "((\<forall>f \<in> set (otherFields date data). \<not> sublist reasonLabel f) \<longrightarrow>
      (cancellationReason (subscription data) = [] \<longrightarrow>
         \<not> sublist reasonLabel (getTemplateLetter date data)) \<and>
      (cancellationReason (subscription data) \<noteq> [] \<longrightarrow>
         sublist (lit ''\<newline>Reason for cancellation: '' @ cancellationReason (subscription data) @
                  lit ''\<newline>'') (getTemplateLetter date data) \<and>
         occurrences reasonLabel (getTemplateLetter date data) =
           1 + occurrences reasonLabel (cancellationReason (subscription data)))) \<and>
   (\<exists>pre post. \<forall>r.
      getTemplateLetter date
        (data\<lparr>subscription := (subscription data)\<lparr>cancellationReason := r\<rparr>\<rparr>) =
      pre @ (if r \<noteq> [] then lit ''Reason for cancellation: '' @ r @ lit ''\<newline>'' else []) @ post)"
proof -
  let ?r = "cancellationReason (subscription data)"
  let ?H = "\<forall>f \<in> set (otherFields date data). \<not> sublist reasonLabel f"
  have ne: "reasonLabel \<noteq> []" by (simp add: reasonLabel_def)
  have 1: "?r = [] \<longrightarrow> \<not> sublist reasonLabel (getTemplateLetter date data)" if ?H
    using occ_letter [OF that] by (simp add: occ_zero_iff [OF ne, symmetric])
  have 2: "?r \<noteq> [] \<longrightarrow> occurrences reasonLabel (getTemplateLetter date data) =
      1 + occurrences reasonLabel ?r" if ?H
    using occ_letter [OF that] by simp
  have 3: "?r \<noteq> [] \<longrightarrow> sublist (lit ''\<newline>Reason for cancellation: '' @ ?r @ lit ''\<newline>'')
      (getTemplateLetter date data)"
  proof
    assume r: "?r \<noteq> []"
    let ?p = "fullName (user data) @ lit ''\<newline>'' @ address (user data) @ lit ''\<newline>'' @
      email (user data) @ lit ''\<newline>'' @ phone (user data) @ lit ''\<newline>\<newline>Date: '' @ date @
      lit ''\<newline>\<newline>RE: Cancellation of '' @ serviceName (subscription data) @
      lit '' Subscription\<newline>Account Number: '' @
      orElse (accountNumber (subscription data)) (lit ''N/A'') @
      lit ''\<newline>\<newline>To the Customer Service Team at '' @ serviceName (subscription data) @
      lit '',\<newline>\<newline>I am writing to formally request the cancellation of my '' @
      subscriptionPlan (subscription data) @ lit '' subscription, effective '' @
      effectiveDate (subscription data) @ lit ''.\<newline>''"
    have "prefix (?p @ lit ''\<newline>Reason for cancellation: '' @ ?r @ lit ''\<newline>'')
        (getTemplateLetter date data)"
      using r by (simp add: getTemplateLetter_def reasonLine_def)
    then show "sublist (lit ''\<newline>Reason for cancellation: '' @ ?r @ lit ''\<newline>'')
        (getTemplateLetter date data)"
      by (rule sublist_of_prefix)
  qed
  have 4: "\<exists>pre post. \<forall>r.
            getTemplateLetter date
              (data\<lparr>subscription := (subscription data)\<lparr>cancellationReason := r\<rparr>\<rparr>) =
            pre @ (if r \<noteq> [] then lit ''Reason for cancellation: '' @ r @ lit ''\<newline>'' else []) @ post"
    using letter_around_reason [where date = date and data = data]
    unfolding reasonLine_def by blast
  from 1 2 3 4 show ?thesis by blast
qed

theorem reasonLine_once_witness:
  "list_all (\<lambda>f. \<not> sublist reasonLabel f) (otherFields (lit ''1/1/2024'') (janeDoe FIRM)) \<and>
   cancellationReason (subscription (janeDoe FIRM)) \<noteq> [] \<and>
   sublist (lit ''\<newline>Reason for cancellation: Too expensive\<newline>'')
     (getTemplateLetter (lit ''1/1/2024'') (janeDoe FIRM)) \<and>
   occurrences reasonLabel (getTemplateLetter (lit ''1/1/2024'') (janeDoe FIRM)) = 1 \<and>
   cancellationReason (subscription (emptyRequest (lit ''2024-01-01''))) = [] \<and>
   \<not> sublist reasonLabel (getTemplateLetter (lit ''1/1/2024'') (emptyRequest (lit ''2024-01-01'')))"
proof -
  have ne: "reasonLabel \<noteq> []" by (simp add: reasonLabel_def)
  have h1: "\<forall>f \<in> set (otherFields (lit ''1/1/2024'') (janeDoe FIRM)). \<not> sublist reasonLabel f"
    by (simp add: otherFields_def janeDoe_def label_chars sublist_Cons_right)
  have h2: "\<forall>f \<in> set (otherFields (lit ''1/1/2024'') (emptyRequest (lit ''2024-01-01''))).
      \<not> sublist reasonLabel f"
    by (simp add: otherFields_def emptyRequest_def label_chars sublist_Cons_right)
  have r: "occurrences reasonLabel (cancellationReason (subscription (janeDoe FIRM))) = 0"
    by (simp add: janeDoe_def label_chars)
  have e: "cancellationReason (subscription (emptyRequest (lit ''2024-01-01''))) = []"
    by (simp add: emptyRequest_def)
  have j: "cancellationReason (subscription (janeDoe FIRM)) = lit ''Too expensive''"
    by (simp add: janeDoe_def)
  from h1 have a: "list_all (\<lambda>f. \<not> sublist reasonLabel f) (otherFields (lit ''1/1/2024'') (janeDoe FIRM))"
    by (simp add: list_all_iff)
  from reasonLine_once [of "lit ''1/1/2024''" "janeDoe FIRM"] h1 j r
  have b: "sublist (lit ''\<newline>Reason for cancellation: '' @ lit ''Too expensive'' @ lit ''\<newline>'')
     (getTemplateLetter (lit ''1/1/2024'') (janeDoe FIRM)) \<and>
     occurrences reasonLabel (getTemplateLetter (lit ''1/1/2024'') (janeDoe FIRM)) = 1"
    by simp
  from reasonLine_once [of "lit ''1/1/2024''" "emptyRequest (lit ''2024-01-01'')"] h2 e
  have c: "\<not> sublist reasonLabel (getTemplateLetter (lit ''1/1/2024'') (emptyRequest (lit ''2024-01-01'')))"
    by blast
  from a b c e j show ?thesis by simp
qed

text \<open>
  C2 as the specification states it fails for a request whose full name reads like a
  reason line: with an empty reason the letter begins with such a line, and with a
  reason of the same wording the line occurs more than once.
\<close>

theorem reasonLine_counterexample:
  "cancellationReason (subscription (reasonInName [])) = [] \<and>
   prefix (lit ''Reason for cancellation: Too expensive\<newline>'')
     (getTemplateLetter (lit ''1/1/2024'') (reasonInName [])) \<and>
   cancellationReason (subscription (reasonInName (lit ''Too expensive''))) \<noteq> [] \<and>
   2 \<le> occurrences (lit ''Reason for cancellation: Too expensive'')
     (getTemplateLetter (lit ''1/1/2024'') (reasonInName (lit ''Too expensive'')))"
proof -
  let ?n = "lit ''Reason for cancellation: Too expensive''"
  let ?L = "getTemplateLetter (lit ''1/1/2024'') (reasonInName (lit ''Too expensive''))"
  have 1: "cancellationReason (subscription (reasonInName [])) = []"
    by (simp add: reasonInName_def)
  have 2: "prefix (lit ''Reason for cancellation: Too expensive\<newline>'')
     (getTemplateLetter (lit ''1/1/2024'') (reasonInName []))"
    by (simp add: reasonInName_def getTemplateLetter_def)
  have 3: "cancellationReason (subscription (reasonInName (lit ''Too expensive''))) \<noteq> []"
    by (simp add: reasonInName_def)
  have p: "prefix ?n ?L"
    by (simp add: reasonInName_def getTemplateLetter_def)
  have "prefix ((lit ''Reason for cancellation: Too expensive\<newline>1 Main St\<newline>jane@x.com\<newline>\<newline>\<newline>Date: 1/1/2024\<newline>\<newline>RE: Cancellation of Netflix Subscription\<newline>Account Number: N/A\<newline>\<newline>To the Customer Service Team at Netflix,\<newline>\<newline>I am writing to formally request the cancellation of my Premium subscription, effective 2024-01-01.\<newline>'') @ (0x0A # ?n)) ?L"
    by (simp add: reasonInName_def getTemplateLetter_def reasonLine_def orElse_def)
  then have "sublist (0x0A # ?n) ?L"
    by (rule sublist_of_prefix)
  with p have 4: "2 \<le> occurrences ?n ?L"
    by (intro occ_twice) simp_all
  from 1 2 3 4 show ?thesis by blast
qed

section \<open>The tone addendum\<close>

lemma letter_around_tone:
  "getTemplateLetter date data =
     (fullName (user data) @ lit ''\<newline>'' @ address (user data) @ lit ''\<newline>'' @
      email (user data) @ lit ''\<newline>'' @ phone (user data) @ lit ''\<newline>\<newline>Date: '' @ date @
      lit ''\<newline>\<newline>RE: Cancellation of '' @ serviceName (subscription data) @
      lit '' Subscription\<newline>Account Number: '' @
      orElse (accountNumber (subscription data)) (lit ''N/A'') @
      lit ''\<newline>\<newline>To the Customer Service Team at '' @ serviceName (subscription data) @
      lit '',\<newline>\<newline>I am writing to formally request the cancellation of my '' @
      subscriptionPlan (subscription data) @ lit '' subscription, effective '' @
      effectiveDate (subscription data) @ lit ''.\<newline>\<newline>'' @
      reasonLine (cancellationReason (subscription data)) @
      lit ''\<newline>Please stop all recurring payments associated with this account immediately. '') @
     toneAdjustment (tone data) @
     (lit ''\<newline>\<newline>Thank you for your prompt attention to this matter.\<newline>\<newline>Sincerely,\<newline>\<newline>'' @
      fullName (user data))"
  by (simp add: getTemplateLetter_def)

text \<open>
  Where a text can occur in a concatenation: in the first part, in the second, or
  across the seam. A text that starts with a line break and has no other one cannot
  reach across a line break; a text that ends with a full stop cannot end inside words
  without one.
\<close>

lemma sublist_append_split:
  "sublist n (a @ b) \<longleftrightarrow>
     sublist n a \<or> sublist n b \<or>
     (\<exists>u v. u \<noteq> [] \<and> v \<noteq> [] \<and> n = u @ v \<and> suffix u a \<and> prefix v b)"
proof
  assume "sublist n (a @ b)"
  then obtain ps ss where e: "a @ b = ps @ n @ ss" by (auto simp: sublist_def)
  then consider us where "a = ps @ us" "us @ b = n @ ss" | us where "a @ us = ps" "b = us @ n @ ss"
    by (auto simp: append_eq_append_conv2)
  then show "sublist n a \<or> sublist n b \<or>
     (\<exists>u v. u \<noteq> [] \<and> v \<noteq> [] \<and> n = u @ v \<and> suffix u a \<and> prefix v b)"
  proof cases
    case 1
    from 1(2) consider vs where "us = n @ vs" | vs where "us @ vs = n" "b = vs @ ss"
      by (auto simp: append_eq_append_conv2)
    then show ?thesis
    proof cases
      case 1
      with \<open>a = ps @ us\<close> have "a = ps @ n @ vs" by simp
      then show ?thesis by (auto simp: sublist_def)
    next
      case 2
      show ?thesis
      proof (cases "us = [] \<or> vs = []")
        case True
        then show ?thesis
        proof
          assume "us = []"
          with 2 have "b = [] @ n @ ss" by simp
          then have "sublist n b" unfolding sublist_def by blast
          then show ?thesis by simp
        next
          assume "vs = []"
          with 2 \<open>a = ps @ us\<close> have "a = ps @ n @ []" by simp
          then have "sublist n a" unfolding sublist_def by blast
          then show ?thesis by simp
        qed
      next
        case False
        moreover from \<open>a = ps @ us\<close> have "suffix us a" by (simp add: suffix_def)
        moreover from 2 have "prefix vs b" by (simp add: prefix_def)
        ultimately show ?thesis using 2(1) by blast
      qed
    qed
  next
    case 2
    then have "sublist n b" unfolding sublist_def by blast
    then show ?thesis by simp
  qed
next
  assume "sublist n a \<or> sublist n b \<or>
     (\<exists>u v. u \<noteq> [] \<and> v \<noteq> [] \<and> n = u @ v \<and> suffix u a \<and> prefix v b)"
  then show "sublist n (a @ b)"
  proof (elim disjE exE conjE)
    assume "sublist n a"
    then obtain p q where "a = p @ n @ q" by (auto simp: sublist_def)
    then have "a @ b = p @ n @ (q @ b)" by simp
    then show ?thesis unfolding sublist_def by blast
  next
    assume "sublist n b"
    then obtain p q where "b = p @ n @ q" by (auto simp: sublist_def)
    then have "a @ b = (a @ p) @ n @ q" by simp
    then show ?thesis unfolding sublist_def by blast
  next
    fix u v
    assume "n = u @ v" "suffix u a" "prefix v b"
    then obtain a' b' where "a = a' @ u" "b = v @ b'" by (auto simp: suffix_def prefix_def)
    with \<open>n = u @ v\<close> have "a @ b = a' @ n @ b'" by simp
    then show ?thesis unfolding sublist_def by blast
  qed
qed

lemma sublist_skip:
  "c \<notin> set l \<Longrightarrow> sublist (c # m) (l @ s) \<longleftrightarrow> sublist (c # m) s"
  by (induction l) (auto simp: sublist_Cons_right)

lemma sublist_at_break:
  "sublist (c # m) (c # s) \<longleftrightarrow> prefix m s \<or> sublist (c # m) s"
  by (simp add: sublist_Cons_right)

lemma prefix_before_break:
  assumes "c \<notin> set m" "r = [] \<or> hd r = c"
  shows "prefix m (x @ r) \<longleftrightarrow> prefix m x"
proof
  assume "prefix m (x @ r)"
  then consider "prefix m x" | us where "m = x @ us" "prefix us r"
    unfolding prefix_append by blast
  then show "prefix m x"
  proof cases
    case 1 then show ?thesis .
  next
    case 2
    show ?thesis
    proof (cases "us = []")
      case True with 2 show ?thesis by simp
    next
      case False
      with 2(2) assms(2) have "hd us = c" by (cases us; cases r) auto
      with False 2(1) have "c \<in> set m" by (cases us) auto
      with assms(1) show ?thesis by simp
    qed
  qed
next
  assume "prefix m x"
  then show "prefix m (x @ r)" by (rule prefix_prefix)
qed

lemma sublist_across_break:
  assumes "c \<notin> set m" "r = [] \<or> hd r = c"
  shows "sublist (c # m) (x @ r) \<longleftrightarrow> sublist (c # m) x \<or> sublist (c # m) r"
proof -
  have "\<not> (\<exists>u v. u \<noteq> [] \<and> v \<noteq> [] \<and> c # m = u @ v \<and> suffix u x \<and> prefix v r)"
  proof
    assume "\<exists>u v. u \<noteq> [] \<and> v \<noteq> [] \<and> c # m = u @ v \<and> suffix u x \<and> prefix v r"
    then obtain u v where uv: "u \<noteq> []" "v \<noteq> []" "c # m = u @ v" "prefix v r" by blast
    from uv(2,4) assms(2) have "hd v = c" by (cases v; cases r) auto
    with uv(2) have "c \<in> set v" by (cases v) auto
    moreover from uv(1,3) have "set v \<subseteq> set m" by (cases u) auto
    ultimately show False using assms(1) by blast
  qed
  then show ?thesis
    unfolding sublist_append_split [of "c # m" x r] by blast
qed

lemma sublist_before_end:
  assumes "x \<notin> set l"
  shows "sublist (n @ [x]) (f @ l) \<longleftrightarrow> sublist (n @ [x]) f"
proof -
  have "sublist (x # rev n) (rev l @ rev f) \<longleftrightarrow> sublist (x # rev n) (rev f)"
    by (rule sublist_skip) (use assms in simp)
  then show ?thesis
    using sublist_rev [of "n @ [x]" "f @ l"] sublist_rev [of "n @ [x]" f] by simp
qed

lemma sublist_with_stop:
  "sublist (n @ [x]) (f @ [x]) \<longleftrightarrow> sublist (n @ [x]) f \<or> suffix n f"
proof -
  have "sublist (x # rev n) (x # rev f) \<longleftrightarrow> prefix (rev n) (rev f) \<or> sublist (x # rev n) (rev f)"
    by (rule sublist_at_break)
  then show ?thesis
    using sublist_rev [of "n @ [x]" "f @ [x]"] sublist_rev [of "n @ [x]" f]
    by (auto simp: suffix_to_prefix)
qed

lemma sublist_over_words:
  assumes "x \<notin> set l" "\<not> sublist l m"
  shows "sublist (c # m @ [x]) (f @ l @ s) \<longleftrightarrow> sublist (c # m @ [x]) f \<or> sublist (c # m @ [x]) (l @ s)"
proof -
  have "\<not> (\<exists>u v. u \<noteq> [] \<and> v \<noteq> [] \<and> c # m @ [x] = u @ v \<and> suffix u f \<and> prefix v (l @ s))"
  proof
    assume "\<exists>u v. u \<noteq> [] \<and> v \<noteq> [] \<and> c # m @ [x] = u @ v \<and> suffix u f \<and> prefix v (l @ s)"
    then obtain u v where uv: "u \<noteq> []" "v \<noteq> []" "c # m @ [x] = u @ v" "prefix v (l @ s)" by blast
    from uv(1,3) obtain u' where u': "m @ [x] = u' @ v" by (cases u) auto
    from uv(2) u' have lv: "last v = x" by (metis last_appendR last_snoc)
    from uv(4) consider "prefix v l" | w where "v = l @ w"
      unfolding prefix_append by blast
    then show False
    proof cases
      case 1
      with uv(2) lv have "x \<in> set l" by (metis last_in_set set_mono_prefix subsetD)
      with assms(1) show ?thesis by simp
    next
      case 2
      show ?thesis
      proof (cases "w = []")
        case True
        with 2 uv(2) lv have "x \<in> set l" by (metis append_Nil2 last_in_set)
        with assms(1) show ?thesis by simp
      next
        case False
        with 2 u' lv have "m @ [x] = u' @ l @ butlast w @ [x]"
          by (metis append_assoc append_butlast_last_id last_appendR)
        then have "m = u' @ l @ butlast w" by simp
        then have "sublist l m" unfolding sublist_def by blast
        with assms(2) show ?thesis by simp
      qed
    qed
  qed
  then show ?thesis
    unfolding sublist_append_split [of "c # m @ [x]" f "l @ s"] by blast
qed

text \<open>
  The letter as lines: the segments between the line breaks of the template. A value
  may hold line breaks of its own, inside its segment.
\<close>

lemma sublist_joined:
  assumes "0x0A \<notin> set m"
  shows "sublist (0x0A # m) (concat (map (\<lambda>x. 0x0A # x) ls)) \<longleftrightarrow>
     (\<exists>s \<in> set ls. prefix m s \<or> sublist (0x0A # m) s)"
proof (induction ls)
  case Nil
  show ?case by simp
next
  case (Cons x ls)
  let ?r = "concat (map (\<lambda>x. 0x0A # x) ls)"
  have r: "?r = [] \<or> hd ?r = 0x0A" by (cases ls) simp_all
  have "sublist (0x0A # m) (0x0A # x @ ?r) \<longleftrightarrow> prefix m (x @ ?r) \<or> sublist (0x0A # m) (x @ ?r)"
    by (rule sublist_at_break)
  also have "\<dots> \<longleftrightarrow> prefix m x \<or> sublist (0x0A # m) x \<or> sublist (0x0A # m) ?r"
    by (simp only: prefix_before_break [OF assms r] sublist_across_break [OF assms r])
  finally show ?case using Cons.IH by auto
qed

lemma sublist_joinLines:
  assumes "0x0A \<notin> set m"
  shows "sublist (0x0A # m) (joinLines (l # ls)) \<longleftrightarrow>
     sublist (0x0A # m) l \<or> (\<exists>s \<in> set ls. prefix m s \<or> sublist (0x0A # m) s)"
proof -
  let ?r = "concat (map (\<lambda>x. 0x0A # x) ls)"
  have r: "?r = [] \<or> hd ?r = 0x0A" by (cases ls) simp_all
  show ?thesis
    by (simp only: joinLines.simps sublist_across_break [OF assms r] sublist_joined [OF assms])
qed

lemma toneAdjustment_break:
  "toneAdjustment t = (if t = FORMAL then [] else 0x0A # tl (toneAdjustment t))"
  by (cases t) (simp_all add: toneAdjustment_def)

lemma letter_segments:
  "getTemplateLetter date data =
     joinLines
      (fullName (user data) #
       [address (user data), email (user data), phone (user data), [],
        lit ''Date: '' @ date, [],
        lit ''RE: Cancellation of '' @ serviceName (subscription data) @ lit '' Subscription'',
        lit ''Account Number: '' @ orElse (accountNumber (subscription data)) (lit ''N/A''), [],
        lit ''To the Customer Service Team at '' @ serviceName (subscription data) @ lit '','', [],
        lit ''I am writing to formally request the cancellation of my '' @
          subscriptionPlan (subscription data) @ lit '' subscription, effective '' @
          effectiveDate (subscription data) @ lit ''.'', []] @
       (if cancellationReason (subscription data) \<noteq> []
        then [lit ''Reason for cancellation: '' @ cancellationReason (subscription data), []]
        else [[]]) @
       [lit ''Please stop all recurring payments associated with this account immediately. ''] @
       (if tone data = FORMAL then [] else [tl (toneAdjustment (tone data))]) @
       [[], lit ''Thank you for your prompt attention to this matter.'', [],
        lit ''Sincerely,'', [], fullName (user data)])"
proof (cases "tone data = FORMAL")
  case True
  then have "toneAdjustment (tone data) = []" by (simp add: toneAdjustment_def)
  with True show ?thesis by (simp add: getTemplateLetter_def reasonLine_def)
next
  case False
  then obtain b where "toneAdjustment (tone data) = 0x0A # b"
    using toneAdjustment_break [of "tone data"] by simp
  with False show ?thesis by (simp add: getTemplateLetter_def reasonLine_def)
qed

text \<open>
  The three addenda: a line break, sentences without a line break, a final full stop.
  None of them holds the words between plan and date, none opens like a line of the
  template, and none opens like another.
\<close>

lemma addendum_shape:
  assumes "t \<noteq> FORMAL"
  obtains core where "toneAdjustment t = 0x0A # core @ [0x2E]" "0x0A \<notin> set core"
    "\<not> sublist (lit '' subscription, effective '') core"
    "prefix (addendumOpening t) (core @ [0x2E])"
proof (cases t)
  case FORMAL
  with assms show ?thesis by simp
next
  case FIRM
  show ?thesis
  proof (rule that [of "lit ''Please be advised that this request is final. I expect a written confirmation of this cancellation and an assurance that no further charges will be applied to my account. If any further unauthorized billing occurs, I will be forced to escalate this matter''"])
    show "toneAdjustment t = 0x0A # lit ''Please be advised that this request is final. I expect a written confirmation of this cancellation and an assurance that no further charges will be applied to my account. If any further unauthorized billing occurs, I will be forced to escalate this matter'' @ [0x2E]"
      by (simp add: FIRM toneAdjustment_def)
    show "0x0A \<notin> set (lit ''Please be advised that this request is final. I expect a written confirmation of this cancellation and an assurance that no further charges will be applied to my account. If any further unauthorized billing occurs, I will be forced to escalate this matter'')"
      by simp
    show "\<not> sublist (lit '' subscription, effective '') (lit ''Please be advised that this request is final. I expect a written confirmation of this cancellation and an assurance that no further charges will be applied to my account. If any further unauthorized billing occurs, I will be forced to escalate this matter'')"
      by (simp add: sublist_Cons_right)
    show "prefix (addendumOpening t) (lit ''Please be advised that this request is final. I expect a written confirmation of this cancellation and an assurance that no further charges will be applied to my account. If any further unauthorized billing occurs, I will be forced to escalate this matter'' @ [0x2E])"
      by (simp add: FIRM)
  qed
next
  case FRIENDLY
  show ?thesis
  proof (rule that [of "lit ''I have enjoyed using your service, but I have decided to cancel at this time. Thank you for your support and assistance with this request''"])
    show "toneAdjustment t = 0x0A # lit ''I have enjoyed using your service, but I have decided to cancel at this time. Thank you for your support and assistance with this request'' @ [0x2E]"
      by (simp add: FRIENDLY toneAdjustment_def)
    show "0x0A \<notin> set (lit ''I have enjoyed using your service, but I have decided to cancel at this time. Thank you for your support and assistance with this request'')"
      by simp
    show "\<not> sublist (lit '' subscription, effective '') (lit ''I have enjoyed using your service, but I have decided to cancel at this time. Thank you for your support and assistance with this request'')"
      by (simp add: sublist_Cons_right)
    show "prefix (addendumOpening t) (lit ''I have enjoyed using your service, but I have decided to cancel at this time. Thank you for your support and assistance with this request'' @ [0x2E])"
      by (simp add: FRIENDLY)
  qed
next
  case DIRECT
  show ?thesis
  proof (rule that [of "lit ''Please process this request immediately. No further communication is required other than a confirmation of termination''"])
    show "toneAdjustment t = 0x0A # lit ''Please process this request immediately. No further communication is required other than a confirmation of termination'' @ [0x2E]"
      by (simp add: DIRECT toneAdjustment_def)
    show "0x0A \<notin> set (lit ''Please process this request immediately. No further communication is required other than a confirmation of termination'')"
      by simp
    show "\<not> sublist (lit '' subscription, effective '') (lit ''Please process this request immediately. No further communication is required other than a confirmation of termination'')"
      by (simp add: sublist_Cons_right)
    show "prefix (addendumOpening t) (lit ''Please process this request immediately. No further communication is required other than a confirmation of termination'' @ [0x2E])"
      by (simp add: DIRECT)
  qed
qed

lemma opening_mismatch:
  assumes "t \<noteq> FORMAL"
  shows "\<not> prefix (addendumOpening t) (lit ''Date: '' @ x)"
    "\<not> prefix (addendumOpening t) (lit ''RE: Cancellation of '' @ x)"
    "\<not> prefix (addendumOpening t) (lit ''Account Number: '' @ x)"
    "\<not> prefix (addendumOpening t) (lit ''To the Customer Service Team at '' @ x)"
    "\<not> prefix (addendumOpening t) (lit ''I am writing to formally request the cancellation of my '' @ x)"
    "\<not> prefix (addendumOpening t) (lit ''Reason for cancellation: '' @ x)"
    "\<not> prefix (addendumOpening t) (lit ''Please stop all recurring payments associated with this account immediately. '')"
    "\<not> prefix (addendumOpening t) (lit ''Thank you for your prompt attention to this matter.'')"
    "\<not> prefix (addendumOpening t) (lit ''Sincerely,'')"
    "\<not> prefix (addendumOpening t) []"
  using assms by (cases t; simp)+

lemma opening_others:
  assumes "t \<noteq> FORMAL" "t2 \<noteq> t"
  shows "\<not> prefix (addendumOpening t) (tl (toneAdjustment t2))"
  using assms by (cases t; cases t2) (simp_all add: toneAdjustment_def)

lemma body_no_break: "0x0A \<notin> set (tl (toneAdjustment t))"
  by (cases t) (simp_all add: toneAdjustment_def)

text \<open>
  Which addenda occur in the letter: the one of the tone, in its place, and those that
  the values carry.
\<close>

lemma addendum_occurs_iff:
  assumes "t \<noteq> FORMAL"
  shows "sublist (toneAdjustment t) (getTemplateLetter date data) \<longleftrightarrow>
     t = tone data \<or> carries date data t"
proof -
  from assms obtain core where N: "toneAdjustment t = 0x0A # core @ [0x2E]"
    and nb: "0x0A \<notin> set core"
    and nw: "\<not> sublist (lit '' subscription, effective '') core"
    and op: "prefix (addendumOpening t) (core @ [0x2E])"
    by (rule addendum_shape)
  let ?N = "0x0A # core @ [0x2E]"
  let ?m = "core @ [0x2E]"
  from nb have nbm: "0x0A \<notin> set ?m" by simp
  have N2: "?N = (0x0A # core) @ [0x2E]" by simp
  have tlN: "tl (toneAdjustment t) = ?m" and blN: "butlast (toneAdjustment t) = 0x0A # core"
    by (simp_all add: N)
  have pm: "\<not> prefix ?m s" if "\<not> prefix (addendumOpening t) s" for s
    using that op by (meson prefix_order.trans)
  note om = opening_mismatch [OF assms]
  have p_lits: "\<not> prefix ?m []"
    "\<not> prefix ?m (lit ''Date: '' @ date)"
    "\<not> prefix ?m (lit ''RE: Cancellation of '' @ serviceName (subscription data) @ lit '' Subscription'')"
    "\<not> prefix ?m (lit ''Account Number: '' @ orElse (accountNumber (subscription data)) (lit ''N/A''))"
    "\<not> prefix ?m (lit ''To the Customer Service Team at '' @ serviceName (subscription data) @ lit '','')"
    "\<not> prefix ?m (lit ''I am writing to formally request the cancellation of my '' @
          subscriptionPlan (subscription data) @ lit '' subscription, effective '' @
          effectiveDate (subscription data) @ lit ''.'')"
    "\<not> prefix ?m (lit ''Reason for cancellation: '' @ cancellationReason (subscription data))"
    "\<not> prefix ?m (lit ''Please stop all recurring payments associated with this account immediately. '')"
    "\<not> prefix ?m (lit ''Thank you for your prompt attention to this matter.'')"
    "\<not> prefix ?m (lit ''Sincerely,'')"
    by (rule pm, rule om)+
  have s_nil: "\<not> sublist ?N []" by simp
  have s_lits:
    "\<not> sublist ?N (lit ''Please stop all recurring payments associated with this account immediately. '')"
    "\<not> sublist ?N (lit ''Thank you for your prompt attention to this matter.'')"
    "\<not> sublist ?N (lit ''Sincerely,'')"
    using sublist_skip [of "0x0A" _ ?m "[]"] by simp_all
  have s_date: "sublist ?N (lit ''Date: '' @ date) \<longleftrightarrow> sublist ?N date"
    by (rule sublist_skip) simp
  have s_re: "sublist ?N (lit ''RE: Cancellation of '' @ serviceName (subscription data) @ lit '' Subscription'')
      \<longleftrightarrow> sublist ?N (serviceName (subscription data))"
  proof -
    have "sublist ?N (lit ''RE: Cancellation of '' @ serviceName (subscription data) @ lit '' Subscription'')
      \<longleftrightarrow> sublist ?N (serviceName (subscription data) @ lit '' Subscription'')"
      by (rule sublist_skip) simp
    also have "\<dots> \<longleftrightarrow> sublist ?N (serviceName (subscription data))"
      unfolding N2 by (rule sublist_before_end) simp
    finally show ?thesis .
  qed
  have s_acct: "sublist ?N (lit ''Account Number: '' @ orElse (accountNumber (subscription data)) (lit ''N/A''))
      \<longleftrightarrow> sublist ?N (accountNumber (subscription data))"
  proof -
    have "sublist ?N (lit ''Account Number: '' @ orElse (accountNumber (subscription data)) (lit ''N/A''))
      \<longleftrightarrow> sublist ?N (orElse (accountNumber (subscription data)) (lit ''N/A''))"
      by (rule sublist_skip) simp
    also have "\<dots> \<longleftrightarrow> sublist ?N (accountNumber (subscription data))"
      using sublist_skip [of "0x0A" "lit ''N/A''" ?m "[]"] by (simp add: orElse_def)
    finally show ?thesis .
  qed
  have s_to: "sublist ?N (lit ''To the Customer Service Team at '' @ serviceName (subscription data) @ lit '','')
      \<longleftrightarrow> sublist ?N (serviceName (subscription data))"
  proof -
    have "sublist ?N (lit ''To the Customer Service Team at '' @ serviceName (subscription data) @ lit '','')
      \<longleftrightarrow> sublist ?N (serviceName (subscription data) @ lit '','')"
      by (rule sublist_skip) simp
    also have "\<dots> \<longleftrightarrow> sublist ?N (serviceName (subscription data))"
      unfolding N2 by (rule sublist_before_end) simp
    finally show ?thesis .
  qed
  have s_plan: "sublist ?N (lit ''I am writing to formally request the cancellation of my '' @
          subscriptionPlan (subscription data) @ lit '' subscription, effective '' @
          effectiveDate (subscription data) @ lit ''.'')
      \<longleftrightarrow> sublist ?N (subscriptionPlan (subscription data)) \<or>
          sublist ?N (effectiveDate (subscription data)) \<or>
          suffix (0x0A # core) (effectiveDate (subscription data))"
  proof -
    have "sublist ?N (lit ''I am writing to formally request the cancellation of my '' @
          subscriptionPlan (subscription data) @ lit '' subscription, effective '' @
          effectiveDate (subscription data) @ lit ''.'')
      \<longleftrightarrow> sublist ?N (subscriptionPlan (subscription data) @ lit '' subscription, effective '' @
          effectiveDate (subscription data) @ lit ''.'')"
      by (rule sublist_skip) simp
    also have "\<dots> \<longleftrightarrow> sublist ?N (subscriptionPlan (subscription data)) \<or>
        sublist ?N (lit '' subscription, effective '' @ effectiveDate (subscription data) @ lit ''.'')"
      by (rule sublist_over_words [OF _ nw]) simp
    also have "sublist ?N (lit '' subscription, effective '' @ effectiveDate (subscription data) @ lit ''.'')
      \<longleftrightarrow> sublist ?N (effectiveDate (subscription data) @ lit ''.'')"
      by (rule sublist_skip) simp
    also have "sublist ?N (effectiveDate (subscription data) @ lit ''.'') \<longleftrightarrow>
       sublist ?N (effectiveDate (subscription data)) \<or>
       suffix (0x0A # core) (effectiveDate (subscription data))"
      using sublist_with_stop [of "0x0A # core" "0x2E" "effectiveDate (subscription data)"] by simp
    finally show ?thesis .
  qed
  have s_reason: "sublist ?N (lit ''Reason for cancellation: '' @ cancellationReason (subscription data))
      \<longleftrightarrow> sublist ?N (cancellationReason (subscription data))"
    by (rule sublist_skip) simp
  have s_body: "\<not> sublist ?N (tl (toneAdjustment (tone data)))"
    using sublist_skip [of "0x0A" "tl (toneAdjustment (tone data))" ?m "[]"] body_no_break [of "tone data"]
    by simp
  have p_body: "prefix ?m (tl (toneAdjustment (tone data))) \<longleftrightarrow> t = tone data"
  proof
    assume "prefix ?m (tl (toneAdjustment (tone data)))"
    with op have "prefix (addendumOpening t) (tl (toneAdjustment (tone data)))"
      by (rule prefix_order.trans)
    with opening_others [OF assms, of "tone data"] show "t = tone data" by auto
  next
    assume "t = tone data"
    with tlN show "prefix ?m (tl (toneAdjustment (tone data)))" by simp
  qed
  show ?thesis
    unfolding letter_segments N sublist_joinLines [OF nbm]
    using assms
    by (auto simp: p_lits s_nil s_lits s_date s_re s_acct s_to s_plan s_reason s_body p_body
        carries_def interpolated_def otherFields_def tlN blN N
        simp del: lit_Cons lit_Nil)
qed

lemma not_carries:
  assumes "t \<noteq> FORMAL"
    and "\<forall>f \<in> set (interpolated date data). 0x0A \<notin> set f"
    and "\<forall>f \<in> set [fullName (user data), address (user data), email (user data), phone (user data)].
           \<not> prefix (addendumOpening t) f"
  shows "\<not> carries date data t"
proof -
  from assms(1) obtain core where N: "toneAdjustment t = 0x0A # core @ [0x2E]"
    and op: "prefix (addendumOpening t) (core @ [0x2E])"
    by (rule addendum_shape)
  have 1: "\<not> sublist (toneAdjustment t) f" if "f \<in> set (interpolated date data)" for f
  proof
    assume "sublist (toneAdjustment t) f"
    then have "set (toneAdjustment t) \<subseteq> set f" by (rule set_mono_sublist)
    with N have "0x0A \<in> set f" by auto
    with assms(2) that show False by blast
  qed
  have 2: "\<not> prefix (tl (toneAdjustment t)) f"
    if "f \<in> set [fullName (user data), address (user data), email (user data), phone (user data)]" for f
  proof
    assume "prefix (tl (toneAdjustment t)) f"
    with op N have "prefix (addendumOpening t) f" by (metis list.sel(3) prefix_order.trans)
    with assms(3) that show False by blast
  qed
  have 3: "\<not> suffix (butlast (toneAdjustment t)) (effectiveDate (subscription data))"
  proof
    assume "suffix (butlast (toneAdjustment t)) (effectiveDate (subscription data))"
    then have "set (butlast (toneAdjustment t)) \<subseteq> set (effectiveDate (subscription data))"
      by (rule set_mono_suffix)
    with N have "0x0A \<in> set (effectiveDate (subscription data))" by (auto simp: butlast_append)
    with assms(2) show False by (simp add: interpolated_def otherFields_def)
  qed
  from 1 2 3 show ?thesis
    unfolding carries_def list_ex_iff by blast
qed

text \<open>
  C3 (as amended). The template inserts exactly one addendum, the one that belongs to the
  tone of the request: the letter ends with the instruction to stop the payments, then
  that addendum, then the thanks, the valediction and the full name, and letters for
  different tones differ in the addendum only. The addendum of the formal tone is the
  empty string; the three others are the texts of the source, different from one
  another, and each starts with a single line break, so it follows the instruction on
  the next line with no blank line between. An addendum occurs in the letter exactly
  when it is the one of the request's tone or the interpolated values carry it. So the
  addendum of the request's tone is the only one in the letter, and none is there for
  the formal tone, exactly when the values carry no addendum of another tone.
\<close>

theorem toneAddendum_slot:
  "suffix (lit ''Please stop all recurring payments associated with this account immediately. '' @
           toneAdjustment (tone data) @
           lit ''\<newline>\<newline>Thank you for your prompt attention to this matter.\<newline>\<newline>Sincerely,\<newline>\<newline>'' @
           fullName (user data))
     (getTemplateLetter date data) \<and>
   (\<exists>pre post. \<forall>t. getTemplateLetter date (data\<lparr>tone := t\<rparr>) = pre @ toneAdjustment t @ post) \<and>
   toneAdjustment FORMAL = [] \<and>
   toneAdjustment FIRM =
     lit ''\<newline>Please be advised that this request is final. I expect a written confirmation of this cancellation and an assurance that no further charges will be applied to my account. If any further unauthorized billing occurs, I will be forced to escalate this matter.'' \<and>
   toneAdjustment FRIENDLY =
     lit ''\<newline>I have enjoyed using your service, but I have decided to cancel at this time. Thank you for your support and assistance with this request.'' \<and>
   toneAdjustment DIRECT =
     lit ''\<newline>Please process this request immediately. No further communication is required other than a confirmation of termination.'' \<and>
   (\<forall>t t'. toneAdjustment t = toneAdjustment t' \<longrightarrow> t = t') \<and>
   (\<forall>t. t \<noteq> FORMAL \<longrightarrow>
      (\<exists>body. toneAdjustment t = 0x0A # body \<and> body \<noteq> [] \<and> hd body \<noteq> 0x0A)) \<and>
   (\<forall>t \<in> set [FIRM, FRIENDLY, DIRECT].
      sublist (toneAdjustment t) (getTemplateLetter date data) \<longleftrightarrow>
        t = tone data \<or> carries date data t) \<and>
   (addendaIn (getTemplateLetter date data) = (if tone data = FORMAL then [] else [tone data]) \<longleftrightarrow>
      (\<forall>t \<in> set [FIRM, FRIENDLY, DIRECT]. t = tone data \<or> \<not> carries date data t))"
proof -
  let ?halt = "lit ''Please stop all recurring payments associated with this account immediately. ''"
  let ?close = "lit ''\<newline>\<newline>Thank you for your prompt attention to this matter.\<newline>\<newline>Sincerely,\<newline>\<newline>'' @
           fullName (user data)"
  have shape: "\<exists>top. \<forall>t. getTemplateLetter date (data\<lparr>tone := t\<rparr>) =
      (top @ ?halt) @ toneAdjustment t @ ?close"
    by (rule exI [of _ "fullName (user data) @ lit ''\<newline>'' @ address (user data) @ lit ''\<newline>'' @
      email (user data) @ lit ''\<newline>'' @ phone (user data) @ lit ''\<newline>\<newline>Date: '' @ date @
      lit ''\<newline>\<newline>RE: Cancellation of '' @ serviceName (subscription data) @
      lit '' Subscription\<newline>Account Number: '' @
      orElse (accountNumber (subscription data)) (lit ''N/A'') @
      lit ''\<newline>\<newline>To the Customer Service Team at '' @ serviceName (subscription data) @
      lit '',\<newline>\<newline>I am writing to formally request the cancellation of my '' @
      subscriptionPlan (subscription data) @ lit '' subscription, effective '' @
      effectiveDate (subscription data) @ lit ''.\<newline>\<newline>'' @
      reasonLine (cancellationReason (subscription data)) @ lit ''\<newline>''"])
       (simp add: getTemplateLetter_def)
  then obtain top where top: "\<And>t. getTemplateLetter date (data\<lparr>tone := t\<rparr>) =
      (top @ ?halt) @ toneAdjustment t @ ?close"
    by blast
  from top [of "tone data"]
  have "getTemplateLetter date data = top @ (?halt @ toneAdjustment (tone data) @ ?close)"
    by simp
  then have 1: "suffix (?halt @ toneAdjustment (tone data) @ ?close) (getTemplateLetter date data)"
    by (rule suffixI)
  from top have 2: "\<exists>pre post. \<forall>t. getTemplateLetter date (data\<lparr>tone := t\<rparr>) = pre @ toneAdjustment t @ post"
    by blast
  have 3: "toneAdjustment FORMAL = []"
    "toneAdjustment FIRM =
     lit ''\<newline>Please be advised that this request is final. I expect a written confirmation of this cancellation and an assurance that no further charges will be applied to my account. If any further unauthorized billing occurs, I will be forced to escalate this matter.''"
    "toneAdjustment FRIENDLY =
     lit ''\<newline>I have enjoyed using your service, but I have decided to cancel at this time. Thank you for your support and assistance with this request.''"
    "toneAdjustment DIRECT =
     lit ''\<newline>Please process this request immediately. No further communication is required other than a confirmation of termination.''"
    by (simp_all add: toneAdjustment_def)
  have 4: "toneAdjustment t = toneAdjustment t' \<longrightarrow> t = t'" for t t'
    by (cases t; cases t') (simp_all add: toneAdjustment_def)
  have 5: "t \<noteq> FORMAL \<longrightarrow> (\<exists>body. toneAdjustment t = 0x0A # body \<and> body \<noteq> [] \<and> hd body \<noteq> 0x0A)" for t
    by (cases t) (simp_all add: toneAdjustment_def)
  have occ: "sublist (toneAdjustment t) (getTemplateLetter date data) \<longleftrightarrow>
        t = tone data \<or> carries date data t" if "t \<noteq> FORMAL" for t
    using that by (rule addendum_occurs_iff)
  then have 6: "\<forall>t \<in> set [FIRM, FRIENDLY, DIRECT].
      sublist (toneAdjustment t) (getTemplateLetter date data) \<longleftrightarrow>
        t = tone data \<or> carries date data t"
    by simp
  have 7: "addendaIn (getTemplateLetter date data) = (if tone data = FORMAL then [] else [tone data]) \<longleftrightarrow>
      (\<forall>t \<in> set [FIRM, FRIENDLY, DIRECT]. t = tone data \<or> \<not> carries date data t)"
    unfolding addendaIn_def
    by (cases "tone data") (auto simp: occ)
  from 1 2 3 4 5 6 7 show ?thesis by blast
qed

theorem toneAddendum_slot_witness:
  "suffix (lit ''Please stop all recurring payments associated with this account immediately. \<newline>I have enjoyed using your service, but I have decided to cancel at this time. Thank you for your support and assistance with this request.\<newline>\<newline>Thank you for your prompt attention to this matter.\<newline>\<newline>Sincerely,\<newline>\<newline>Jane Doe'')
     (getTemplateLetter (lit ''1/1/2024'') (janeDoe FRIENDLY)) \<and>
   toneAdjustment FIRM \<noteq> toneAdjustment DIRECT \<and>
   hd (toneAdjustment DIRECT) = 0x0A \<and> hd (tl (toneAdjustment DIRECT)) \<noteq> 0x0A \<and>
   tone janeEnjoyed = FIRM \<and>
   cancellationReason (subscription janeEnjoyed) = lit ''I have enjoyed it, but it costs too much'' \<and>
   list_all (\<lambda>t. \<not> carries (lit ''1/1/2024'') janeEnjoyed t) [FRIENDLY, DIRECT] \<and>
   addendaIn (getTemplateLetter (lit ''1/1/2024'') janeEnjoyed) = [FIRM]"
proof -
  note th = toneAddendum_slot [of "janeDoe FRIENDLY" "lit ''1/1/2024''"]
  note th2 = toneAddendum_slot [of janeEnjoyed "lit ''1/1/2024''"]
  from th have "suffix (lit ''Please stop all recurring payments associated with this account immediately. '' @
           toneAdjustment (tone (janeDoe FRIENDLY)) @
           lit ''\<newline>\<newline>Thank you for your prompt attention to this matter.\<newline>\<newline>Sincerely,\<newline>\<newline>'' @
           fullName (user (janeDoe FRIENDLY)))
     (getTemplateLetter (lit ''1/1/2024'') (janeDoe FRIENDLY))"
    by (rule conjunct1)
  then have 1: "suffix (lit ''Please stop all recurring payments associated with this account immediately. \<newline>I have enjoyed using your service, but I have decided to cancel at this time. Thank you for your support and assistance with this request.\<newline>\<newline>Thank you for your prompt attention to this matter.\<newline>\<newline>Sincerely,\<newline>\<newline>Jane Doe'')
     (getTemplateLetter (lit ''1/1/2024'') (janeDoe FRIENDLY))"
    by (simp add: janeDoe_def toneAdjustment_def)
  from th have "toneAdjustment FIRM = toneAdjustment DIRECT \<longrightarrow> FIRM = DIRECT"
    by blast
  then have 2: "toneAdjustment FIRM \<noteq> toneAdjustment DIRECT"
    by auto
  from th have "DIRECT \<noteq> FORMAL \<longrightarrow>
      (\<exists>body. toneAdjustment DIRECT = 0x0A # body \<and> body \<noteq> [] \<and> hd body \<noteq> 0x0A)"
    by blast
  then have 3: "hd (toneAdjustment DIRECT) = 0x0A \<and> hd (tl (toneAdjustment DIRECT)) \<noteq> 0x0A"
    by auto
  have 4: "tone janeEnjoyed = FIRM"
    "cancellationReason (subscription janeEnjoyed) = lit ''I have enjoyed it, but it costs too much''"
    by (simp_all add: janeEnjoyed_def janeDoe_def)
  have nc: "\<not> carries (lit ''1/1/2024'') janeEnjoyed t" if "t = FRIENDLY \<or> t = DIRECT" for t
  proof (rule not_carries)
    from that show "t \<noteq> FORMAL" by auto
    show "\<forall>f \<in> set (interpolated (lit ''1/1/2024'') janeEnjoyed). 0x0A \<notin> set f"
      by (simp add: interpolated_def otherFields_def janeEnjoyed_def janeDoe_def)
    from that show "\<forall>f \<in> set [fullName (user janeEnjoyed), address (user janeEnjoyed),
        email (user janeEnjoyed), phone (user janeEnjoyed)]. \<not> prefix (addendumOpening t) f"
      by (auto simp: janeEnjoyed_def janeDoe_def)
  qed
  then have 5: "list_all (\<lambda>t. \<not> carries (lit ''1/1/2024'') janeEnjoyed t) [FRIENDLY, DIRECT]"
    by simp
  from th2 have "addendaIn (getTemplateLetter (lit ''1/1/2024'') janeEnjoyed) =
      (if tone janeEnjoyed = FORMAL then [] else [tone janeEnjoyed]) \<longleftrightarrow>
      (\<forall>t \<in> set [FIRM, FRIENDLY, DIRECT]. t = tone janeEnjoyed \<or> \<not> carries (lit ''1/1/2024'') janeEnjoyed t)"
    by blast
  with nc 4(1) have 6: "addendaIn (getTemplateLetter (lit ''1/1/2024'') janeEnjoyed) = [FIRM]"
    by simp
  from 1 2 3 4 5 6 show ?thesis by blast
qed

text \<open>
  C3 as the specification states it fails when a field of the request carries the text of
  an addendum: with the friendly addendum as second line of the address, the letter for
  the firm tone contains two addenda, and the letter for the formal tone contains one.
\<close>

theorem toneAddendum_counterexample:
  "tone (addendumInAddress FIRM) = FIRM \<and>
   FIRM \<in> set (addendaIn (getTemplateLetter (lit ''1/1/2024'') (addendumInAddress FIRM))) \<and>
   FRIENDLY \<in> set (addendaIn (getTemplateLetter (lit ''1/1/2024'') (addendumInAddress FIRM))) \<and>
   tone (addendumInAddress FORMAL) = FORMAL \<and>
   FRIENDLY \<in> set (addendaIn (getTemplateLetter (lit ''1/1/2024'') (addendumInAddress FORMAL)))"
proof -
  have t: "tone (addendumInAddress t) = t" for t
    by (simp add: addendumInAddress_def janeDoe_def)
  have a: "sublist (toneAdjustment t) (getTemplateLetter (lit ''1/1/2024'') (addendumInAddress t))" for t
    by (subst letter_around_tone, subst t, rule sublist_appendI)
  have "prefix (lit ''Jane Doe\<newline>1 Main St'' @ toneAdjustment FRIENDLY)
      (getTemplateLetter (lit ''1/1/2024'') (addendumInAddress t))" for t
    by (simp add: getTemplateLetter_def addendumInAddress_def janeDoe_def)
  then have b: "sublist (toneAdjustment FRIENDLY)
      (getTemplateLetter (lit ''1/1/2024'') (addendumInAddress t))" for t
    by (rule sublist_of_prefix)
  from t a [of FIRM] b show ?thesis
    by (simp add: addendaIn_def)
qed

end
